theory Spec2Isabelle
  imports Complex_Main "HOL-Library.Product_Lexorder"
begin

section \<open>Data model of the planner (app/services/planner.py)\<close>

text \<open>
  The planner works on Python dictionaries. A dictionary with a fixed set of keys is a
  record here, a value that \<^verbatim>\<open>.get\<close> may find absent or \<^verbatim>\<open>None\<close> is an option, and a
  Python float is a real number (rounding is not modelled). Field names are the keys of
  the source; where two dictionaries share a key, the field carries a short prefix. Keys
  that the planner never reads (\<^verbatim>\<open>location\<close>, \<^verbatim>\<open>capacity_tonnes\<close>, \<^verbatim>\<open>sla_hours\<close>,
  \<^verbatim>\<open>current_location\<close>) are left out.
\<close>

datatype error = KeyError | ZeroDivisionError | ValueError string | SolverError

text \<open>A geographic point: the keys \<^verbatim>\<open>latitude\<close> and \<^verbatim>\<open>longitude\<close>, both nullable.\<close>

record point =
  latitude :: "real option"
  longitude :: "real option"

type_synonym stock = "string \<rightharpoonup> real"

type_synonym inventory = "string \<rightharpoonup> stock"

record stockyard = point +
  sy_id :: string
  code :: string
  name :: string
  current_inventory :: stock

record order =
  o_id :: string
  order_number :: string
  product_code :: string
  quantity_tonnes :: real
  source_stockyard_id :: "string option"
  destination :: string
  destination_latitude :: "real option"
  destination_longitude :: "real option"
  priority :: int
  due_date :: nat

record rake =
  rake_number :: string
  wagon_type_code :: string
  num_wagons :: int
  total_capacity_tonnes :: real
  status :: "string option"

section \<open>Distance oracle: \<^verbatim>\<open>GreedyPlanner._calculate_distance\<close>\<close>

text \<open>
  Python truth value of an optional float as \<^verbatim>\<open>d.get(k)\<close> yields it: \<^verbatim>\<open>None\<close> is false,
  and so is the number zero.
\<close>

definition truthy :: "real option \<Rightarrow> bool" where
  "truthy v = (case v of None \<Rightarrow> False | Some x \<Rightarrow> x \<noteq> 0)"

definition radians :: "real \<Rightarrow> real" where
  "radians d = d * pi / 180"

definition calculate_distance :: "'a point_scheme \<Rightarrow> 'b point_scheme \<Rightarrow> real" where
  "calculate_distance origin dest =
     (if truthy (latitude origin) \<and> truthy (longitude origin) \<and>
         truthy (latitude dest) \<and> truthy (longitude dest)
      then
        (let lat1 = radians (the (latitude origin)); lon1 = radians (the (longitude origin));
             lat2 = radians (the (latitude dest)); lon2 = radians (the (longitude dest));
             dlat = lat2 - lat1;
             dlon = lon2 - lon1;
             a = (sin (dlat / 2))\<^sup>2 + cos lat1 * cos lat2 * (sin (dlon / 2))\<^sup>2;
             c = 2 * arcsin (sqrt a)
         in c * 6371)
      else 500)"

text \<open>
  The great-circle distance in kilometres the specification names: the haversine formula
  on a sphere of radius 6371 km, for two points given in degrees.
\<close>

definition haversine_km :: "real \<Rightarrow> real \<Rightarrow> real \<Rightarrow> real \<Rightarrow> real" where
  "haversine_km la1 lo1 la2 lo2 =
     6371 * (2 * arcsin (sqrt ((sin ((radians la2 - radians la1) / 2))\<^sup>2 +
        cos (radians la1) * cos (radians la2) * (sin ((radians lo2 - radians lo1) / 2))\<^sup>2)))"

text \<open>A point has both coordinates when neither is \<^verbatim>\<open>None\<close>.\<close>

definition has_coordinates :: "'a point_scheme \<Rightarrow> bool" where
  "has_coordinates p = (latitude p \<noteq> None \<and> longitude p \<noteq> None)"

section \<open>Source selector: \<^verbatim>\<open>GreedyPlanner._select_source_stockyard\<close>\<close>

text \<open>
  \<^verbatim>\<open>list.sort(key=f, reverse=True)\<close> is stable: elements with equal keys keep their order.
\<close>

definition sort_key_reverse :: "('a \<Rightarrow> 'k::linorder) \<Rightarrow> 'a list \<Rightarrow> 'a list" where
  "sort_key_reverse f xs = rev (sort_key f (rev xs))"

definition has_stock :: "inventory \<Rightarrow> string \<Rightarrow> real \<Rightarrow> stockyard \<Rightarrow> bool" where
  "has_stock inventory product required_qty sy =
     (case inventory (code sy) of
        None \<Rightarrow> False
      | Some m \<Rightarrow> (case m product of None \<Rightarrow> False | Some available \<Rightarrow> available \<ge> required_qty))"

definition stock_key :: "inventory \<Rightarrow> string \<Rightarrow> stockyard \<Rightarrow> real" where
  "stock_key inventory product sy =
     (case inventory (code sy) of
        None \<Rightarrow> 0
      | Some m \<Rightarrow> (case m product of None \<Rightarrow> 0 | Some v \<Rightarrow> v))"

definition pinned :: "order \<Rightarrow> bool" where
  "pinned ord = (case source_stockyard_id ord of None \<Rightarrow> False | Some s \<Rightarrow> s \<noteq> [])"

definition destination_point :: "order \<Rightarrow> point" where
  "destination_point ord =
     \<lparr>latitude = destination_latitude ord, longitude = destination_longitude ord\<rparr>"

definition select_source_stockyard :: "order \<Rightarrow> stockyard list \<Rightarrow> inventory \<Rightarrow> stockyard option" where
  "select_source_stockyard ord stockyards inventory =
     (if pinned ord
      then find (\<lambda>s. Some (sy_id s) = source_stockyard_id ord) stockyards
      else
        (let candidates = filter (has_stock inventory (product_code ord) (quantity_tonnes ord)) stockyards
         in if candidates = [] then None
            else if truthy (destination_latitude ord) \<and> truthy (destination_longitude ord)
            then (case sort_key (\<lambda>sy. calculate_distance sy (destination_point ord)) candidates of
                    [] \<Rightarrow> None | c # _ \<Rightarrow> Some c)
            else (case sort_key_reverse (stock_key inventory (product_code ord)) candidates of
                    [] \<Rightarrow> None | c # _ \<Rightarrow> Some c)))"

text \<open>
  The two tie-breaks of the specification, as predicates on the chosen candidate: no
  candidate is nearer to the order's destination (by the distance oracle), and no
  candidate holds more of the product.
\<close>

definition nearest :: "order \<Rightarrow> stockyard list \<Rightarrow> stockyard \<Rightarrow> bool" where
  "nearest ord cands c =
     (c \<in> set cands \<and>
      list_all (\<lambda>c'. calculate_distance c (destination_point ord)
                       \<le> calculate_distance c' (destination_point ord)) cands)"

definition most_stocked :: "inventory \<Rightarrow> string \<Rightarrow> stockyard list \<Rightarrow> stockyard \<Rightarrow> bool" where
  "most_stocked inventory product cands c =
     (c \<in> set cands \<and>
      list_all (\<lambda>c'. stock_key inventory product c' \<le> stock_key inventory product c) cands)"

section \<open>Greedy planner: \<^verbatim>\<open>GreedyPlanner\<close>\<close>

text \<open>
  The configuration dictionary: every key is optional. The nested dictionary
  \<^verbatim>\<open>cost_weights\<close> is flattened into its three keys.
\<close>

record config =
  mode :: "string option"
  allow_multi_destination :: "bool option"
  cfg_min_rake_size :: "real option"
  cost_weight_freight :: "real option"
  cost_weight_demurrage :: "real option"
  cost_weight_idle :: "real option"
  cfg_freight_rate :: "real option"
  cfg_demurrage_rate :: "real option"
  cfg_idle_cost :: "real option"

text \<open>\<^verbatim>\<open>d.get(k, default)\<close> on an optional key.\<close>

definition get_or :: "'a \<Rightarrow> 'a option \<Rightarrow> 'a" where
  "get_or d v = (case v of None \<Rightarrow> d | Some x \<Rightarrow> x)"

text \<open>The attributes a planner object holds after \<^verbatim>\<open>__init__\<close>.\<close>

record planner =
  allow_multi_dest :: bool
  min_rake_size :: real
  freight_weight :: real
  demurrage_weight :: real
  idle_weight :: real
  freight_rate :: real
  demurrage_rate :: real
  idle_rate :: real

definition GreedyPlanner :: "config \<Rightarrow> planner" where
  "GreedyPlanner cfg =
     \<lparr>allow_multi_dest = get_or False (allow_multi_destination cfg),
      min_rake_size = get_or 1000 (cfg_min_rake_size cfg),
      freight_weight = get_or 1.0 (cost_weight_freight cfg),
      demurrage_weight = get_or 0.5 (cost_weight_demurrage cfg),
      idle_weight = get_or 0.3 (cost_weight_idle cfg),
      freight_rate = get_or 2.5 (cfg_freight_rate cfg),
      demurrage_rate = get_or 500 (cfg_demurrage_rate cfg),
      idle_rate = get_or 100 (cfg_idle_cost cfg)\<rparr>"

text \<open>An entry of a rake's \<^verbatim>\<open>orders\<close> list, a planned rake, and a plan.\<close>

record assigned_order =
  order_id :: string
  ao_order_number :: string
  ao_product_code :: string
  quantity :: real
  ao_destination :: string
  ao_freight_cost :: real

record plan_rake =
  pr_rake_number :: string
  origin_stockyard_code :: "string option"
  origin_stockyard_name :: "string option"
  destinations :: "string list"
  orders :: "assigned_order list"
  order_ids :: "string list"
  total_weight :: real
  capacity :: real
  pr_utilization_pct :: real
  pr_freight_cost :: real
  pr_demurrage_cost :: real
  pr_idle_cost :: real
  wagon_type :: string
  pr_num_wagons :: int

record plan =
  rakes :: "plan_rake list"
  total_cost :: real
  freight_cost :: real
  demurrage_cost :: real
  idle_cost :: real
  utilization_pct :: real
  orders_fulfilled :: nat
  total_orders :: nat
  algorithm :: string

subsection \<open>\<^verbatim>\<open>_pack_rake\<close>\<close>

text \<open>
  The local variables of \<^verbatim>\<open>_pack_rake\<close>, and the inventory ledger it updates in place.
  The set \<^verbatim>\<open>destinations\<close> is kept as a list without repetitions.
\<close>

record pack_state =
  current_weight :: real
  rake_orders :: "assigned_order list"
  pk_destinations :: "string list"
  origin_stockyard :: "stockyard option"
  pk_freight_cost :: real
  pk_inventory :: inventory

text \<open>
  The last block of the loop body (from \<^verbatim>\<open>product_code = order['product_code']\<close> on): when
  the ledger of the chosen stockyard holds enough of the product, the tonnage is reserved
  and the order joins the pack. A stockyard code that the ledger does not know raises.
\<close>

definition reserve_order :: "planner \<Rightarrow> order \<Rightarrow> stockyard \<Rightarrow> pack_state \<Rightarrow> error + pack_state" where
  "reserve_order p ord source_sy st =
     (let order_weight = quantity_tonnes ord; dest = destination ord in
      case pk_inventory st (code source_sy) of
        None \<Rightarrow> Inl KeyError
      | Some m \<Rightarrow>
          (case m (product_code ord) of
             None \<Rightarrow> Inr st
           | Some available \<Rightarrow>
               if available \<ge> order_weight
               then
                 (let distance = calculate_distance source_sy (destination_point ord);
                      order_freight = distance * order_weight * freight_rate p
                  in Inr (st\<lparr>
                       pk_inventory := (pk_inventory st)(code source_sy \<mapsto>
                          m(product_code ord \<mapsto> available - order_weight)),
                       current_weight := current_weight st + order_weight,
                       pk_destinations :=
                         (if dest \<in> set (pk_destinations st) then pk_destinations st
                          else pk_destinations st @ [dest]),
                       pk_freight_cost := pk_freight_cost st + order_freight,
                       rake_orders := rake_orders st @
                         [\<lparr>order_id = o_id ord,
                           ao_order_number = order_number ord,
                           ao_product_code = product_code ord,
                           quantity = order_weight,
                           ao_destination = dest,
                           ao_freight_cost = order_freight\<rparr>]\<rparr>))
               else Inr st))"

text \<open>
  One pass of the loop body, for one order; every \<^verbatim>\<open>continue\<close> returns the state as it
  is. The first stockyard selected becomes the origin of the pack, also when the order is
  not added afterwards.
\<close>

definition pack_order ::
  "planner \<Rightarrow> real \<Rightarrow> string set \<Rightarrow> stockyard list \<Rightarrow> order \<Rightarrow> pack_state \<Rightarrow> error + pack_state" where
  "pack_order p rake_capacity assigned stockyards ord st =
     (if o_id ord \<in> assigned then Inr st
      else if current_weight st + quantity_tonnes ord > rake_capacity then Inr st
      else if \<not> allow_multi_dest p \<and> pk_destinations st \<noteq> [] \<and>
              destination ord \<notin> set (pk_destinations st)
      then Inr st
      else
        (case select_source_stockyard ord stockyards (pk_inventory st) of
           None \<Rightarrow> Inr st
         | Some source_sy \<Rightarrow>
             (case origin_stockyard st of
                None \<Rightarrow> reserve_order p ord source_sy (st\<lparr>origin_stockyard := Some source_sy\<rparr>)
              | Some origin \<Rightarrow>
                  if code source_sy \<noteq> code origin then Inr st
                  else reserve_order p ord source_sy st)))"

fun pack_orders ::
  "planner \<Rightarrow> real \<Rightarrow> string set \<Rightarrow> stockyard list \<Rightarrow> order list \<Rightarrow> pack_state \<Rightarrow> error + pack_state" where
  "pack_orders p rake_capacity assigned stockyards [] st = Inr st"
| "pack_orders p rake_capacity assigned stockyards (ord # rest) st =
     (case pack_order p rake_capacity assigned stockyards ord st of
        Inl e \<Rightarrow> Inl e
      | Inr st' \<Rightarrow> pack_orders p rake_capacity assigned stockyards rest st')"

text \<open>
  \<^verbatim>\<open>_pack_rake\<close> returns the pack (\<^verbatim>\<open>None\<close> when no order was added); the ledger it has
  mutated is returned beside it. The division by the rake capacity raises when the
  capacity is zero.
\<close>

definition pack_rake ::
  "planner \<Rightarrow> rake \<Rightarrow> order list \<Rightarrow> string set \<Rightarrow> stockyard list \<Rightarrow> inventory
     \<Rightarrow> error + (plan_rake option \<times> inventory)" where
  "pack_rake p rk ords assigned stockyards inventory =
     (let rake_capacity = total_capacity_tonnes rk in
      case pack_orders p rake_capacity assigned stockyards ords
             \<lparr>current_weight = 0, rake_orders = [], pk_destinations = [],
              origin_stockyard = None, pk_freight_cost = 0, pk_inventory = inventory\<rparr> of
        Inl e \<Rightarrow> Inl e
      | Inr st \<Rightarrow>
          if rake_orders st = [] then Inr (None, pk_inventory st)
          else if rake_capacity = 0 then Inl ZeroDivisionError
          else
            (let utilization = (current_weight st / rake_capacity) * 100;
                 demurrage = (if utilization < 75 then demurrage_rate p * 24 else 0);
                 idle = idle_rate p * (real (length (rake_orders st)) * 2)
             in Inr (Some
                  \<lparr>pr_rake_number = rake_number rk,
                   origin_stockyard_code = map_option code (origin_stockyard st),
                   origin_stockyard_name = map_option name (origin_stockyard st),
                   destinations = pk_destinations st,
                   orders = rake_orders st,
                   order_ids = map order_id (rake_orders st),
                   total_weight = current_weight st,
                   capacity = rake_capacity,
                   pr_utilization_pct = utilization,
                   pr_freight_cost = pk_freight_cost st,
                   pr_demurrage_cost = demurrage,
                   pr_idle_cost = idle,
                   wagon_type = wagon_type_code rk,
                   pr_num_wagons = num_wagons rk\<rparr>, pk_inventory st)))"

subsection \<open>\<^verbatim>\<open>plan\<close>\<close>

text \<open>The local variables of \<^verbatim>\<open>GreedyPlanner.plan\<close> that the loop over the rakes updates.\<close>

record plan_state =
  plan_rakes :: "plan_rake list"
  assigned_orders :: "string set"
  total_freight :: real
  total_demurrage :: real
  total_idle :: real
  stockyard_inventory :: inventory

text \<open>
  The sort key \<^verbatim>\<open>(priority, due_date)\<close>. An order of the model has both keys, each with
  a number (the due date as a point in time), so the defaults of \<^verbatim>\<open>.get\<close> for a missing key
  are never taken, and no \<^verbatim>\<open>None\<close> meets a number in the comparison.
\<close>

definition order_key :: "order \<Rightarrow> int \<times> nat" where
  "order_key ord = (priority ord, due_date ord)"

definition initial_inventory :: "stockyard list \<Rightarrow> inventory" where
  "initial_inventory stockyards =
     fold (\<lambda>sy inventory. inventory(code sy \<mapsto> current_inventory sy)) stockyards Map.empty"

fun plan_loop ::
  "planner \<Rightarrow> order list \<Rightarrow> stockyard list \<Rightarrow> rake list \<Rightarrow> plan_state \<Rightarrow> error + plan_state" where
  "plan_loop p sorted_orders stockyards [] st = Inr st"
| "plan_loop p sorted_orders stockyards (rk # rest) st =
     (if card (assigned_orders st) \<ge> length sorted_orders then Inr st
      else
        (case pack_rake p rk sorted_orders (assigned_orders st) stockyards (stockyard_inventory st) of
           Inl e \<Rightarrow> Inl e
         | Inr (rake_plan, inventory') \<Rightarrow>
             (case rake_plan of
                None \<Rightarrow>
                  plan_loop p sorted_orders stockyards rest (st\<lparr>stockyard_inventory := inventory'\<rparr>)
              | Some rp \<Rightarrow>
                  if total_weight rp \<ge> min_rake_size p
                  then plan_loop p sorted_orders stockyards rest
                         (st\<lparr>plan_rakes := plan_rakes st @ [rp],
                             total_freight := total_freight st + pr_freight_cost rp,
                             total_demurrage := total_demurrage st + pr_demurrage_cost rp,
                             total_idle := total_idle st + pr_idle_cost rp,
                             assigned_orders := assigned_orders st \<union> set (order_ids rp),
                             stockyard_inventory := inventory'\<rparr>)
                  else plan_loop p sorted_orders stockyards rest
                         (st\<lparr>stockyard_inventory := inventory'\<rparr>))))"

definition calculate_utilization :: "plan_rake list \<Rightarrow> real" where
  "calculate_utilization prs =
     (if prs = [] then 0 else sum_list (map pr_utilization_pct prs) / real (length prs))"

text \<open>
  The run of the planner up to the end of its loop: the sorted orders, the available
  rakes, a fresh ledger, and the loop. \<^verbatim>\<open>plan\<close> then builds the result dictionary.
\<close>

definition plan_run ::
  "planner \<Rightarrow> order list \<Rightarrow> stockyard list \<Rightarrow> rake list \<Rightarrow> error + plan_state" where
  "plan_run p ords stockyards rks =
     plan_loop p (sort_key order_key ords) stockyards
       (filter (\<lambda>r. status r = Some ''available'') rks)
       \<lparr>plan_rakes = [], assigned_orders = {}, total_freight = 0, total_demurrage = 0,
        total_idle = 0, stockyard_inventory = initial_inventory stockyards\<rparr>"

definition GreedyPlanner_plan ::
  "planner \<Rightarrow> order list \<Rightarrow> stockyard list \<Rightarrow> rake list \<Rightarrow> error + plan" where
  "GreedyPlanner_plan p ords stockyards rks =
     (case plan_run p ords stockyards rks of
        Inl e \<Rightarrow> Inl e
      | Inr st \<Rightarrow>
          Inr \<lparr>rakes = plan_rakes st,
               total_cost = freight_weight p * total_freight st +
                            demurrage_weight p * total_demurrage st +
                            idle_weight p * total_idle st,
               freight_cost = total_freight st,
               demurrage_cost = total_demurrage st,
               idle_cost = total_idle st,
               utilization_pct = calculate_utilization (plan_rakes st),
               orders_fulfilled = card (assigned_orders st),
               total_orders = length ords,
               algorithm = ''greedy''\<rparr>)"

subsection \<open>Statements about plans and ledgers\<close>


text \<open>The distinct order ids on the rakes of a plan.\<close>

definition planned_order_ids :: "plan_rake list \<Rightarrow> string set" where
  "planned_order_ids prs = (\<Union>r\<in>set prs. set (map order_id (orders r)))"

text \<open>
  The entry of the ledger for a stockyard code and a product, the tonnage of a product
  among the orders of a pack, and the order on ledgers: the same entries, none larger.
\<close>

definition remaining :: "inventory \<Rightarrow> string \<Rightarrow> string \<Rightarrow> real option" where
  "remaining inventory c product = (case inventory c of None \<Rightarrow> None | Some m \<Rightarrow> m product)"

definition reserved :: "assigned_order list \<Rightarrow> string \<Rightarrow> real" where
  "reserved aos product = sum_list (map quantity (filter (\<lambda>a. ao_product_code a = product) aos))"

definition ledger_le :: "inventory \<Rightarrow> inventory \<Rightarrow> bool" where
  "ledger_le later earlier =
     (\<forall>c product.
        case remaining earlier c product of
          None \<Rightarrow> remaining later c product = None
        | Some v \<Rightarrow> (case remaining later c product of None \<Rightarrow> False | Some v' \<Rightarrow> v' \<le> v))"

text \<open>
  The tonnage of a product that a pack has taken from the stockyard with code \<open>c\<close>: the
  orders of a pack all load at its origin. A pack state accounts for a ledger when every
  entry of its own ledger is the entry of that ledger less the tonnage the pack has taken.
\<close>

definition reserved_at :: "string option \<Rightarrow> assigned_order list \<Rightarrow> string \<Rightarrow> string \<Rightarrow> real" where
  "reserved_at origin_code aos c product = (if origin_code = Some c then reserved aos product else 0)"

definition ledger_accounts :: "inventory \<Rightarrow> pack_state \<Rightarrow> bool" where
  "ledger_accounts inventory st =
     ((rake_orders st \<noteq> [] \<longrightarrow> origin_stockyard st \<noteq> None) \<and>
      (\<forall>c product.
         remaining (pk_inventory st) c product =
         map_option (\<lambda>v. v - reserved_at (map_option code (origin_stockyard st)) (rake_orders st) c product)
           (remaining inventory c product)))"

text \<open>
  The tonnage of a product that the rakes of a plan take from the stockyard with code
  \<open>c\<close>, and the bound of a later ledger by an earlier one less that tonnage.
\<close>

definition shipped :: "plan_rake list \<Rightarrow> string \<Rightarrow> string \<Rightarrow> real" where
  "shipped prs c product =
     sum_list (map (\<lambda>r. reserved_at (origin_stockyard_code r) (orders r) c product) prs)"

definition ledger_within :: "inventory \<Rightarrow> inventory \<Rightarrow> plan_rake list \<Rightarrow> bool" where
  "ledger_within later earlier prs =
     (\<forall>c product.
        case remaining earlier c product of
          None \<Rightarrow> remaining later c product = None
        | Some v \<Rightarrow> (case remaining later c product of
                       None \<Rightarrow> False
                     | Some v' \<Rightarrow> v' \<le> v - shipped prs c product))"

section \<open>CP-SAT planner: \<^verbatim>\<open>ORToolsPlanner\<close>\<close>

text \<open>\<^verbatim>\<open>int(x)\<close> on a float truncates towards zero.\<close>

definition py_int :: "real \<Rightarrow> int" where
  "py_int x = (if 0 \<le> x then \<lfloor>x\<rfloor> else \<lceil>x\<rceil>)"

definition ORToolsPlanner :: "config \<Rightarrow> planner" where
  "ORToolsPlanner cfg =
     \<lparr>allow_multi_dest = get_or False (allow_multi_destination cfg),
      min_rake_size = get_or 1000 (cfg_min_rake_size cfg),
      freight_weight = of_int (py_int (get_or 1.0 (cost_weight_freight cfg) * 1000)),
      demurrage_weight = of_int (py_int (get_or 0.5 (cost_weight_demurrage cfg) * 1000)),
      idle_weight = of_int (py_int (get_or 0.3 (cost_weight_idle cfg) * 1000)),
      freight_rate = get_or 2.5 (cfg_freight_rate cfg),
      demurrage_rate = get_or 500 (cfg_demurrage_rate cfg),
      idle_rate = get_or 100 (cfg_idle_cost cfg)\<rparr>"

text \<open>
  The solver is the OR-Tools library, outside this repository. It enters the model as a
  parameter: called on the orders and the available rakes the model was built from, it
  raises, or it returns a status and the values of the variables \<^verbatim>\<open>assignment_vars[(i, j)]\<close>
  (true when \<^verbatim>\<open>solver.Value\<close> is 1).
\<close>

datatype cp_status = OPTIMAL | FEASIBLE | INFEASIBLE | MODEL_INVALID | UNKNOWN

type_synonym cp_values = "nat \<Rightarrow> nat \<Rightarrow> bool"

type_synonym cp_solver = "order list \<Rightarrow> rake list \<Rightarrow> error + (cp_status \<times> cp_values)"

text \<open>
  The constraints \<^verbatim>\<open>plan\<close> posts to the model: every order on at most one rake, and for
  every rake the truncated quantities of its orders within the truncated capacity.
\<close>

definition cp_constraints :: "order list \<Rightarrow> rake list \<Rightarrow> cp_values \<Rightarrow> bool" where
  "cp_constraints ords available_rakes x =
     (list_all (\<lambda>i. length (filter (\<lambda>j. x i j) [0..<length available_rakes]) \<le> 1)
        [0..<length ords] \<and>
      list_all (\<lambda>(j, rk).
          sum_list (map (\<lambda>(i, ord). if x i j then py_int (quantity_tonnes ord) else 0)
                      (enumerate 0 ords))
            \<le> py_int (total_capacity_tonnes rk))
        (enumerate 0 available_rakes))"

text \<open>The objective \<^verbatim>\<open>plan\<close> asks the solver to minimise.\<close>

definition cp_objective :: "order list \<Rightarrow> rake list \<Rightarrow> cp_values \<Rightarrow> int" where
  "cp_objective ords available_rakes x =
     sum_list (concat (map (\<lambda>(i, ord). map (\<lambda>j. if x i j then py_int (quantity_tonnes ord * 500) else 0)
                                         [0..<length available_rakes])
                         (enumerate 0 ords)))"

subsection \<open>\<^verbatim>\<open>_extract_solution\<close>\<close>

text \<open>The orders the solution puts on rake \<open>j\<close>, in the order of the input list.\<close>

definition rake_selection :: "cp_values \<Rightarrow> order list \<Rightarrow> nat \<Rightarrow> order list" where
  "rake_selection x ords j = map snd (filter (\<lambda>(i, ord). x i j) (enumerate 0 ords))"

text \<open>
  The loop over the rakes: it accumulates the emitted rakes and the set
  \<^verbatim>\<open>assigned_orders\<close>. An order id enters the set in the inner loop, before the test on the
  rake's weight.
\<close>

fun extract_rakes ::
  "planner \<Rightarrow> cp_values \<Rightarrow> order list \<Rightarrow> (nat \<times> rake) list \<Rightarrow> plan_rake list \<times> string set
     \<Rightarrow> error + (plan_rake list \<times> string set)" where
  "extract_rakes p x ords [] acc = Inr acc"
| "extract_rakes p x ords ((j, rk) # rest) (prs, assigned) =
     (let rake_orders = rake_selection x ords j;
          total_weight = sum_list (map quantity_tonnes rake_orders);
          assigned' = assigned \<union> set (map o_id rake_orders)
      in if rake_orders \<noteq> [] \<and> total_weight \<ge> min_rake_size p
         then
           if total_capacity_tonnes rk = 0 then Inl ZeroDivisionError
           else extract_rakes p x ords rest
                  (prs @
                   [\<lparr>pr_rake_number = rake_number rk,
                     origin_stockyard_code = None,
                     origin_stockyard_name = None,
                     destinations = remdups (map destination rake_orders),
                     orders = map (\<lambda>ord. \<lparr>order_id = o_id ord,
                                           ao_order_number = order_number ord,
                                           ao_product_code = product_code ord,
                                           quantity = quantity_tonnes ord,
                                           ao_destination = destination ord,
                                           ao_freight_cost = 0\<rparr>) rake_orders,
                     order_ids = map o_id rake_orders,
                     total_weight = total_weight,
                     capacity = total_capacity_tonnes rk,
                     pr_utilization_pct = (total_weight / total_capacity_tonnes rk) * 100,
                     pr_freight_cost = total_weight * 500 * freight_rate p,
                     pr_demurrage_cost = 0,
                     pr_idle_cost = 0,
                     wagon_type = wagon_type_code rk,
                     pr_num_wagons = num_wagons rk\<rparr>], assigned')
         else extract_rakes p x ords rest (prs, assigned'))"

definition extract_solution ::
  "planner \<Rightarrow> cp_values \<Rightarrow> order list \<Rightarrow> stockyard list \<Rightarrow> rake list \<Rightarrow> error + plan" where
  "extract_solution p x ords stockyards rks =
     (case extract_rakes p x ords (enumerate 0 rks) ([], {}) of
        Inl e \<Rightarrow> Inl e
      | Inr (prs, assigned) \<Rightarrow>
          (let total_freight = sum_list (map pr_freight_cost prs);
               utilization = (if prs \<noteq> [] then sum_list (map pr_utilization_pct prs) / real (length prs)
                              else 0)
           in Inr \<lparr>rakes = prs,
                   total_cost = total_freight,
                   freight_cost = total_freight,
                   demurrage_cost = 0,
                   idle_cost = 0,
                   utilization_pct = utilization,
                   orders_fulfilled = card assigned,
                   total_orders = length ords,
                   algorithm = ''or-tools (CP-SAT)''\<rparr>))"

subsection \<open>\<^verbatim>\<open>plan\<close>\<close>

definition with_algorithm :: "string \<Rightarrow> error + plan \<Rightarrow> error + plan" where
  "with_algorithm tag r = (case r of Inl e \<Rightarrow> Inl e | Inr pl \<Rightarrow> Inr (pl\<lparr>algorithm := tag\<rparr>))"

definition ORToolsPlanner_plan ::
  "config \<Rightarrow> cp_solver \<Rightarrow> order list \<Rightarrow> stockyard list \<Rightarrow> rake list \<Rightarrow> error + plan" where
  "ORToolsPlanner_plan cfg solver ords stockyards rks =
     (let available_rakes = filter (\<lambda>r. status r = Some ''available'') rks in
      if length ords > 50 \<or> length available_rakes > 20
      then with_algorithm ''or-tools (greedy fallback for large instance)''
             (GreedyPlanner_plan (GreedyPlanner cfg) ords stockyards rks)
      else
        (case solver ords available_rakes of
           Inl e \<Rightarrow> Inl e
         | Inr (st, x) \<Rightarrow>
             if st = OPTIMAL \<or> st = FEASIBLE
             then extract_solution (ORToolsPlanner cfg) x ords stockyards available_rakes
             else with_algorithm ''or-tools (no solution, greedy fallback)''
                    (GreedyPlanner_plan (GreedyPlanner cfg) ords stockyards rks)))"

subsection \<open>Statements about the solver and its solutions\<close>










text \<open>
  The reported number of fulfilled orders of a returned plan, beside the number of distinct
  order ids on its rakes.
\<close>

definition fulfilled_and_planned :: "error + plan \<Rightarrow> (nat \<times> nat) option" where
  "fulfilled_and_planned res =
     (case res of
        Inl e \<Rightarrow> None
      | Inr pl \<Rightarrow> Some (orders_fulfilled pl, card (planned_order_ids (rakes pl))))"

section \<open>Planner dispatcher: \<^verbatim>\<open>run_planner\<close>\<close>

text \<open>
  In hybrid mode the call of the CP-SAT planner stands in a \<^verbatim>\<open>try\<close> block whose handler
  catches every exception; the greedy planner runs before the block.
\<close>

definition run_planner ::
  "string \<Rightarrow> config \<Rightarrow> cp_solver \<Rightarrow> order list \<Rightarrow> stockyard list \<Rightarrow> rake list \<Rightarrow> error + plan" where
  "run_planner md cfg solver ords stockyards rks =
     (if md = ''greedy'' then GreedyPlanner_plan (GreedyPlanner cfg) ords stockyards rks
      else if md = ''or-tools'' then ORToolsPlanner_plan cfg solver ords stockyards rks
      else if md = ''hybrid'' then
        (case GreedyPlanner_plan (GreedyPlanner cfg) ords stockyards rks of
           Inl e \<Rightarrow> Inl e
         | Inr greedy_result \<Rightarrow>
             (case ORToolsPlanner_plan cfg solver ords stockyards rks of
                Inr ortools_result \<Rightarrow>
                  if total_cost ortools_result < total_cost greedy_result
                  then Inr (ortools_result\<lparr>algorithm := ''hybrid (or-tools better)''\<rparr>)
                  else Inr (greedy_result\<lparr>algorithm := ''hybrid (greedy better)''\<rparr>)
              | Inl e \<Rightarrow> Inr (greedy_result\<lparr>algorithm := ''hybrid (greedy only)''\<rparr>)))
      else Inl (ValueError (''Unknown planner mode: '' @ md)))"

section \<open>Persistent state (app/models/models.py)\<close>

text \<open>
  The tables the job runner and the commit endpoint touch. A row of \<^verbatim>\<open>orders\<close> is an order
  with its status; rows of \<^verbatim>\<open>rakes\<close> and \<^verbatim>\<open>stockyards\<close> carry the fields of the planner's
  dictionaries. Time is read from a clock: \<open>clock k\<close> is the value of the \<open>k\<close>-th call of
  \<^verbatim>\<open>datetime.utcnow\<close> within one request or one job. A log is the list of its lines, each
  with its time stamp; the counts, the plan id and the stack trace that the source formats
  into a line are left out of its text. A row of \<^verbatim>\<open>plans\<close> keeps the plan in \<^verbatim>\<open>plan_data\<close>;
  the columns that copy its costs and counts are left out.
\<close>

record order_row = order +
  order_status :: string

record planning_job =
  job_id :: string
  scenario_name :: string
  job_status :: string
  progress :: real
  logs :: "(nat \<times> string) list"
  started_at :: "nat option"
  completed_at :: "nat option"

record plan_row =
  plan_id :: string
  plan_job_id :: string
  plan_name :: string
  plan_data :: plan
  committed :: bool
  committed_at :: "nat option"

record plan_rake_row =
  prr_plan_id :: string
  prr_rake_number :: string
  origin_stockyard_id :: "string option"
  prr_destinations :: "string list"
  orders_assigned :: "assigned_order list"
  prr_total_weight :: real
  prr_utilization_pct :: real
  prr_freight_cost :: real

record store =
  jobs_tbl :: "planning_job list"
  plans_tbl :: "plan_row list"
  plan_rakes_tbl :: "plan_rake_row list"
  orders_tbl :: "order_row list"
  stockyards_tbl :: "stockyard list"
  rakes_tbl :: "rake list"

text \<open>
  \<^verbatim>\<open>query.filter(P).first()\<close> is \<open>find P\<close>; assigning to attributes of that row and
  committing replaces the first row that satisfies \<open>P\<close>.
\<close>

fun update_first :: "('a \<Rightarrow> bool) \<Rightarrow> ('a \<Rightarrow> 'a) \<Rightarrow> 'a list \<Rightarrow> 'a list" where
  "update_first P f [] = []"
| "update_first P f (x # xs) = (if P x then f x # xs else x # update_first P f xs)"

datatype http_error = HTTPException nat string

section \<open>Job runner (app/routers/planning.py)\<close>

definition update_job :: "string \<Rightarrow> (planning_job \<Rightarrow> planning_job) \<Rightarrow> store \<Rightarrow> store" where
  "update_job jid f db = db\<lparr>jobs_tbl := update_first (\<lambda>j. job_id j = jid) f (jobs_tbl db)\<rparr>"

text \<open>\<^verbatim>\<open>generate_plan\<close> inserts a job with the column defaults and the status \<^verbatim>\<open>queued\<close>.\<close>

definition new_job :: "string \<Rightarrow> string \<Rightarrow> planning_job" where
  "new_job jid scenario =
     \<lparr>job_id = jid, scenario_name = scenario, job_status = ''queued'', progress = 0,
      logs = [], started_at = None, completed_at = None\<rparr>"

definition generate_plan :: "string \<Rightarrow> string \<Rightarrow> store \<Rightarrow> store" where
  "generate_plan jid scenario db = db\<lparr>jobs_tbl := jobs_tbl db @ [new_job jid scenario]\<rparr>"

text \<open>The row of \<^verbatim>\<open>plan_rakes\<close> written for one rake of the plan.\<close>

definition plan_rake_row_of :: "store \<Rightarrow> string \<Rightarrow> plan_rake \<Rightarrow> plan_rake_row" where
  "plan_rake_row_of db pid rake_plan =
     (let origin_sy =
            (case origin_stockyard_code rake_plan of
               None \<Rightarrow> None
             | Some c \<Rightarrow> if c = [] then None else find (\<lambda>s. code s = c) (stockyards_tbl db))
      in \<lparr>prr_plan_id = pid,
          prr_rake_number = pr_rake_number rake_plan,
          origin_stockyard_id = map_option sy_id origin_sy,
          prr_destinations = destinations rake_plan,
          orders_assigned = orders rake_plan,
          prr_total_weight = total_weight rake_plan,
          prr_utilization_pct = pr_utilization_pct rake_plan,
          prr_freight_cost = pr_freight_cost rake_plan\<rparr>)"

text \<open>
  \<^verbatim>\<open>execute_planning_job\<close>, as the list of the states of the store after each
  \<^verbatim>\<open>db.commit()\<close>, in order: what a poll of the job can observe. The list is empty when
  the job does not exist. The exception the model knows is one raised by the planner; the
  handler then marks the job \<^verbatim>\<open>failed\<close> and commits. The id of the new plan is a parameter.
\<close>

definition execute_planning_job ::
  "(nat \<Rightarrow> nat) \<Rightarrow> cp_solver \<Rightarrow> string \<Rightarrow> string \<Rightarrow> config \<Rightarrow> store \<Rightarrow> store list" where
  "execute_planning_job clock solver new_plan_id jid cfg db =
     (case find (\<lambda>j. job_id j = jid) (jobs_tbl db) of
        None \<Rightarrow> []
      | Some job0 \<Rightarrow>
          (let db1 = update_job jid (\<lambda>j. j\<lparr>job_status := ''running'', started_at := Some (clock 0),
                        logs := logs j @ [(clock 1, ''Starting planning job'')]\<rparr>) db;
               ords = filter (\<lambda>row. order_status row = ''pending'') (orders_tbl db1);
               stockyards = stockyards_tbl db1;
               rks = filter (\<lambda>r. status r = Some ''available'') (rakes_tbl db1);
               db2 = update_job jid (\<lambda>j. j\<lparr>logs := logs j @ [(clock 2, ''Loaded orders, stockyards, rakes'')],
                        progress := 20\<rparr>) db1;
               md = get_or ''greedy'' (mode cfg);
               db3 = update_job jid (\<lambda>j. j\<lparr>logs := logs j @ [(clock 3, ''Running '' @ md @ '' planner'')],
                        progress := 40\<rparr>) db2
           in case run_planner md cfg solver (map order.truncate ords) stockyards rks of
                Inl e \<Rightarrow>
                  [db1, db2, db3,
                   update_job jid (\<lambda>j. j\<lparr>job_status := ''failed'', completed_at := Some (clock 4),
                        logs := logs j @ [(clock 5, ''ERROR'')]\<rparr>) db3]
              | Inr plan_result \<Rightarrow>
                  (let db4 = update_job jid (\<lambda>j. j\<lparr>logs := logs j @ [(clock 4, ''Planning completed'')],
                                progress := 80\<rparr>) db3;
                       db5 = db4\<lparr>plans_tbl := plans_tbl db4 @
                                [\<lparr>plan_id = new_plan_id, plan_job_id = jid,
                                  plan_name = scenario_name job0, plan_data = plan_result,
                                  committed = False, committed_at = None\<rparr>]\<rparr>;
                       db6 = db5\<lparr>plan_rakes_tbl := plan_rakes_tbl db5 @
                                map (plan_rake_row_of db5 new_plan_id) (rakes plan_result)\<rparr>;
                       db7 = update_job jid (\<lambda>j. j\<lparr>job_status := ''completed'',
                                completed_at := Some (clock 5), progress := 100,
                                logs := logs j @ [(clock 6, ''Job completed successfully'')]\<rparr>) db6
                   in [db1, db2, db3, db4, db5, db6, db7])))"

text \<open>\<^verbatim>\<open>cancel_job\<close>: the response or the HTTP error, and the store after the request.\<close>

definition cancel_job :: "(nat \<Rightarrow> nat) \<Rightarrow> string \<Rightarrow> store \<Rightarrow> (http_error + string) \<times> store" where
  "cancel_job clock jid db =
     (case find (\<lambda>j. job_id j = jid) (jobs_tbl db) of
        None \<Rightarrow> (Inl (HTTPException 404 ''Job not found''), db)
      | Some job \<Rightarrow>
          if job_status job \<in> set [''completed'', ''failed'', ''cancelled'']
          then (Inl (HTTPException 400 ''Cannot cancel job in current state''), db)
          else (Inr ''Job cancelled successfully'',
                update_job jid (\<lambda>j. j\<lparr>job_status := ''cancelled'', completed_at := Some (clock 0),
                     logs := logs j @ [(clock 1, ''Job cancelled by user'')]\<rparr>) db))"

text \<open>The status and the progress a poll of the job reads; terminal statuses.\<close>

definition job_state :: "string \<Rightarrow> store \<Rightarrow> (string \<times> real) option" where
  "job_state jid db = map_option (\<lambda>j. (job_status j, progress j)) (find (\<lambda>j. job_id j = jid) (jobs_tbl db))"

definition terminal :: "string \<Rightarrow> bool" where
  "terminal s = (s \<in> set [''completed'', ''failed'', ''cancelled''])"

section \<open>Commit executor: \<^verbatim>\<open>commit_plan\<close>\<close>

definition assign_order :: "assigned_order \<Rightarrow> store \<Rightarrow> store" where
  "assign_order order_data db =
     db\<lparr>orders_tbl := update_first (\<lambda>row. o_id row = order_id order_data)
           (\<lambda>row. row\<lparr>order_status := ''assigned''\<rparr>) (orders_tbl db)\<rparr>"

definition assign_rake :: "plan_rake_row \<Rightarrow> store \<Rightarrow> store" where
  "assign_rake plan_rake db =
     fold assign_order (orders_assigned plan_rake)
       (db\<lparr>rakes_tbl := update_first (\<lambda>r. rake_number r = prr_rake_number plan_rake)
              (\<lambda>r. r\<lparr>status := Some ''assigned''\<rparr>) (rakes_tbl db)\<rparr>)"

text \<open>
  \<^verbatim>\<open>commit_plan\<close>: the response (message, plan id, commit time) or the HTTP error, and the
  store after the request. Both errors are raised before any assignment.
\<close>

definition commit_plan ::
  "(nat \<Rightarrow> nat) \<Rightarrow> string \<Rightarrow> store \<Rightarrow> (http_error + (string \<times> string \<times> nat)) \<times> store" where
  "commit_plan clock pid db =
     (case find (\<lambda>p. plan_id p = pid) (plans_tbl db) of
        None \<Rightarrow> (Inl (HTTPException 404 ''Plan not found''), db)
      | Some pl \<Rightarrow>
          if committed pl then (Inl (HTTPException 400 ''Plan already committed''), db)
          else
            (let db1 = db\<lparr>plans_tbl := update_first (\<lambda>p. plan_id p = pid)
                            (\<lambda>p. p\<lparr>committed := True, committed_at := Some (clock 0)\<rparr>) (plans_tbl db)\<rparr>;
                 plan_rakes = filter (\<lambda>r. prr_plan_id r = pid) (plan_rakes_tbl db1);
                 db2 = fold assign_rake plan_rakes db1
             in (Inr (''Plan committed successfully'', pid, clock 0), db2)))"

text \<open>The rake numbers and the order ids that the rows of a plan refer to.\<close>

definition referenced_rakes :: "string \<Rightarrow> store \<Rightarrow> string set" where
  "referenced_rakes pid db =
     prr_rake_number ` {r \<in> set (plan_rakes_tbl db). prr_plan_id r = pid}"

definition referenced_orders :: "string \<Rightarrow> store \<Rightarrow> string set" where
  "referenced_orders pid db =
     (\<Union>r\<in>{r \<in> set (plan_rakes_tbl db). prr_plan_id r = pid}. order_id ` set (orders_assigned r))"

section \<open>Example data\<close>

text \<open>
  Two stockyards on the meridian 78 E, one degree and twenty degrees north of the
  equator, and an order for a destination on the equator on the same meridian.
\<close>

definition sy_near :: stockyard where
  "sy_near = \<lparr>latitude = Some 1, longitude = Some 78, sy_id = ''1'', code = ''SY001'',
     name = ''Near yard'', current_inventory = [''COAL'' \<mapsto> 2000]\<rparr>"

definition sy_far :: stockyard where
  "sy_far = \<lparr>latitude = Some 20, longitude = Some 78, sy_id = ''2'', code = ''SY002'',
     name = ''Far yard'', current_inventory = [''COAL'' \<mapsto> 30000]\<rparr>"

definition equator_order :: order where
  "equator_order = \<lparr>o_id = ''o1'', order_number = ''ORD001'', product_code = ''COAL'',
     quantity_tonnes = 1000, source_stockyard_id = None, destination = ''Equator port'',
     destination_latitude = Some 0, destination_longitude = Some 78,
     priority = 1, due_date = 5\<rparr>"

definition two_yards :: inventory where
  "two_yards = [''SY001'' \<mapsto> [''COAL'' \<mapsto> 2000], ''SY002'' \<mapsto> [''COAL'' \<mapsto> 30000]]"

text \<open>The configuration with no key set.\<close>

definition default_config :: config where
  "default_config = \<lparr>mode = None, allow_multi_destination = None, cfg_min_rake_size = None,
     cost_weight_freight = None, cost_weight_demurrage = None, cost_weight_idle = None,
     cfg_freight_rate = None, cfg_demurrage_rate = None, cfg_idle_cost = None\<rparr>"

text \<open>
  The first scenario of the specification: two coal orders of 2500 and 2000 tonnes for one
  destination without coordinates, one stockyard holding 30000 tonnes of coal, and one
  available rake of 3480 tonnes.
\<close>

definition coal_order :: "string \<Rightarrow> real \<Rightarrow> int \<Rightarrow> order" where
  "coal_order i q pr = \<lparr>o_id = i, order_number = ''ORD-'' @ i, product_code = ''COAL'',
     quantity_tonnes = q, source_stockyard_id = None, destination = ''Dest 1'',
     destination_latitude = None, destination_longitude = None,
     priority = pr, due_date = 5\<rparr>"

definition coal_yard :: "real \<Rightarrow> stockyard" where
  "coal_yard q = \<lparr>latitude = Some 23, longitude = Some 85, sy_id = ''1'', code = ''SY001'',
     name = ''Test Stockyard 1'', current_inventory = [''COAL'' \<mapsto> q]\<rparr>"

definition boxn_rake :: "string \<Rightarrow> rake" where
  "boxn_rake n = \<lparr>rake_number = n, wagon_type_code = ''BOXN'', num_wagons = 58,
     total_capacity_tonnes = 3480, status = Some ''available''\<rparr>"

text \<open>
  A solver that raises, and one that reports the empty assignment as optimal: the answer
  that minimises the posted objective when no quantity is negative.
\<close>

definition failing_solver :: cp_solver where
  "failing_solver ords rks = Inl SolverError"

definition assign_none :: cp_solver where
  "assign_none ords rks = Inr (OPTIMAL, \<lambda>i j. False)"

text \<open>
  A store with one queued job, one pending order, one stockyard and two available rakes;
  and a store that holds a plan with one rake row, which refers to the rake \<^verbatim>\<open>RK001\<close>, to
  the order \<^verbatim>\<open>o1\<close> and to an order \<^verbatim>\<open>o9\<close> that no row of \<^verbatim>\<open>orders\<close> has.
\<close>

definition pending_order :: "string \<Rightarrow> real \<Rightarrow> order_row" where
  "pending_order i q = \<lparr>o_id = i, order_number = ''ORD-'' @ i, product_code = ''COAL'',
     quantity_tonnes = q, source_stockyard_id = None, destination = ''Dest 1'',
     destination_latitude = None, destination_longitude = None,
     priority = 1, due_date = 5, order_status = ''pending''\<rparr>"

definition queued_store :: store where
  "queued_store = \<lparr>jobs_tbl = [new_job ''j1'' ''Scenario 1''], plans_tbl = [], plan_rakes_tbl = [],
     orders_tbl = [pending_order ''o1'' 2500], stockyards_tbl = [coal_yard 30000],
     rakes_tbl = [boxn_rake ''RK001'', boxn_rake ''RK002'']\<rparr>"

definition empty_plan :: plan where
  "empty_plan = \<lparr>rakes = [], total_cost = 0, freight_cost = 0, demurrage_cost = 0, idle_cost = 0,
     utilization_pct = 0, orders_fulfilled = 0, total_orders = 0, algorithm = ''greedy''\<rparr>"

definition planned_row :: plan_rake_row where
  "planned_row = \<lparr>prr_plan_id = ''p1'', prr_rake_number = ''RK001'', origin_stockyard_id = Some ''1'',
     prr_destinations = [''Dest 1''],
     orders_assigned =
       [\<lparr>order_id = ''o1'', ao_order_number = ''ORD-o1'', ao_product_code = ''COAL'',
         quantity = 2500, ao_destination = ''Dest 1'', ao_freight_cost = 3125000\<rparr>,
        \<lparr>order_id = ''o9'', ao_order_number = ''ORD-o9'', ao_product_code = ''COAL'',
         quantity = 500, ao_destination = ''Dest 1'', ao_freight_cost = 625000\<rparr>],
     prr_total_weight = 3000, prr_utilization_pct = 3000 / 3480 * 100, prr_freight_cost = 3750000\<rparr>"

definition planned_store :: store where
  "planned_store = \<lparr>jobs_tbl = [], 
     plans_tbl = [\<lparr>plan_id = ''p1'', plan_job_id = ''j1'', plan_name = ''Scenario 1'',
                   plan_data = empty_plan, committed = False, committed_at = None\<rparr>],
     plan_rakes_tbl = [planned_row],
     orders_tbl = [pending_order ''o1'' 2500, pending_order ''o2'' 500],
     stockyards_tbl = [coal_yard 30000],
     rakes_tbl = [boxn_rake ''RK001'', boxn_rake ''RK002'']\<rparr>"

section \<open>Properties of the distance oracle\<close>


lemma truthy_simps [simp]: "truthy None = False" "truthy (Some x) = (x \<noteq> 0)"
  by (simp_all add: truthy_def)

lemma calculate_distance_haversine:
  assumes "truthy (latitude origin)" "truthy (longitude origin)"
          "truthy (latitude dest)" "truthy (longitude dest)"
  shows "calculate_distance origin dest =
     haversine_km (the (latitude origin)) (the (longitude origin)) (the (latitude dest)) (the (longitude dest))"
  using assms by (simp add: calculate_distance_def haversine_km_def Let_def)

lemma calculate_distance_fallback:
  assumes "\<not> (truthy (latitude origin) \<and> truthy (longitude origin) \<and>
          truthy (latitude dest) \<and> truthy (longitude dest))"
  shows "calculate_distance origin dest = 500"
  using assms by (auto simp add: calculate_distance_def)

lemma haversine_km_meridian:
  assumes "\<bar>la2 - la1\<bar> \<le> 180"
  shows "haversine_km la1 lo la2 lo = 6371 * (\<bar>la2 - la1\<bar> * pi / 180)"
proof -
  define d where "d = (radians la2 - radians la1) / 2"
  have d_eq: "d = (la2 - la1) * pi / 360"
    by (simp add: d_def radians_def field_simps)
  have abs_d: "\<bar>d\<bar> = \<bar>la2 - la1\<bar> * pi / 360"
    by (simp add: d_eq abs_mult)
  have bound: "\<bar>d\<bar> \<le> pi / 2"
  proof -
    have "\<bar>la2 - la1\<bar> * pi \<le> 180 * pi"
      using assms by (intro mult_right_mono) simp_all
    then show ?thesis by (simp add: abs_d)
  qed
  have sin_abs: "\<bar>sin d\<bar> = sin \<bar>d\<bar>"
  proof (cases "0 \<le> d")
    case True
    moreover have "d \<le> pi" using bound pi_gt_zero by linarith
    ultimately have "0 \<le> sin d" by (rule sin_ge_zero)
    with True show ?thesis by simp
  next
    case False
    then have "0 \<le> - d" by simp
    moreover have "- d \<le> pi" using bound pi_gt_zero by linarith
    ultimately have "0 \<le> sin (- d)" by (rule sin_ge_zero)
    with False show ?thesis by simp
  qed
  have "arcsin (sqrt ((sin d)\<^sup>2)) = \<bar>d\<bar>"
    using bound by (simp add: sin_abs arcsin_sin)
  then have "haversine_km la1 lo la2 lo = 6371 * (2 * \<bar>d\<bar>)"
    by (simp add: haversine_km_def d_def[symmetric])
  also have "2 * \<bar>d\<bar> = \<bar>la2 - la1\<bar> * pi / 180"
    by (simp add: abs_d)
  finally show ?thesis .
qed

section \<open>Properties of the source selector\<close>


lemma sort_key_head_least:
  assumes "sort_key f xs = c # cs"
  shows "c \<in> set xs \<and> (\<forall>x\<in>set xs. f c \<le> f x)"
proof -
  have "set (sort_key f xs) = set xs" by simp
  with assms have in_set: "c \<in> set xs" and sub: "set cs \<subseteq> set xs" and all: "set xs = insert c (set cs)" by auto
  have "sorted (map f (sort_key f xs))" by (rule sorted_sort_key)
  with assms have "\<forall>x\<in>set cs. f c \<le> f x" by simp
  with all in_set show ?thesis by auto
qed

lemma sort_key_reverse_head_greatest:
  assumes "sort_key_reverse f xs = c # cs"
  shows "c \<in> set xs \<and> (\<forall>x\<in>set xs. f x \<le> f c)"
proof -
  from assms have eq: "sort_key f (rev xs) = rev cs @ [c]"
    by (simp add: sort_key_reverse_def rev_swap)
  have "set (sort_key f (rev xs)) = set xs" by simp
  with eq have all: "set xs = insert c (set cs)" by auto
  have "sorted (map f (sort_key f (rev xs)))" by (rule sorted_sort_key)
  with eq have "\<forall>x\<in>set cs. f x \<le> f c" by (simp add: sorted_append)
  with all show ?thesis by auto
qed

lemma sort_key_reverse_Nil [simp]: "sort_key_reverse f xs = [] \<longleftrightarrow> xs = []"
  by (metis length_0_conv length_rev length_sort sort_key_reverse_def)

lemma sort_key_Nil_iff: "sort_key f xs = [] \<longleftrightarrow> xs = []"
  by (metis length_0_conv length_sort)


lemma select_pinned:
  "pinned ord \<Longrightarrow> select_source_stockyard ord stockyards inventory =
     find (\<lambda>s. Some (sy_id s) = source_stockyard_id ord) stockyards"
  by (simp add: select_source_stockyard_def)

lemma select_none_iff:
  "\<not> pinned ord \<Longrightarrow>
   select_source_stockyard ord stockyards inventory = None \<longleftrightarrow>
   filter (has_stock inventory (product_code ord) (quantity_tonnes ord)) stockyards = []"
  by (auto simp add: select_source_stockyard_def Let_def sort_key_Nil_iff split: list.splits)

lemma select_nearest:
  assumes "\<not> pinned ord" "truthy (destination_latitude ord)" "truthy (destination_longitude ord)"
    and "select_source_stockyard ord stockyards inventory = Some c"
  shows "nearest ord (filter (has_stock inventory (product_code ord) (quantity_tonnes ord)) stockyards) c"
  using assms sort_key_head_least[of "\<lambda>sy. calculate_distance sy (destination_point ord)"
      "filter (has_stock inventory (product_code ord) (quantity_tonnes ord)) stockyards" c]
  by (auto simp add: select_source_stockyard_def Let_def nearest_def list_all_iff
      split: list.splits if_splits)

lemma select_most_stocked:
  assumes "\<not> pinned ord" "\<not> (truthy (destination_latitude ord) \<and> truthy (destination_longitude ord))"
    and "select_source_stockyard ord stockyards inventory = Some c"
  shows "most_stocked inventory (product_code ord)
     (filter (has_stock inventory (product_code ord) (quantity_tonnes ord)) stockyards) c"
  using assms sort_key_reverse_head_greatest[of "stock_key inventory (product_code ord)"
      "filter (has_stock inventory (product_code ord) (quantity_tonnes ord)) stockyards" c]
  by (auto simp add: select_source_stockyard_def Let_def most_stocked_def list_all_iff
      split: list.splits if_splits)

text \<open>
  Claim C10. A coordinate that is present with the value 0 is treated like a missing one:
  the distance oracle returns the 500 km fallback as soon as one of the four coordinate
  values is 0, and for an unpinned order whose destination latitude or longitude is 0 the
  source selector answers with a candidate that holds the most stock of the product (none
  when there is no candidate), never with the distance ordering.
\<close>

theorem zero_coordinate_treated_as_missing:
  "(latitude origin = Some 0 \<or> longitude origin = Some 0 \<or>
    latitude dest = Some 0 \<or> longitude dest = Some 0
      \<longrightarrow> calculate_distance origin dest = 500) \<and>
   (\<not> pinned ord \<and> (destination_latitude ord = Some 0 \<or> destination_longitude ord = Some 0)
      \<longrightarrow> (case select_source_stockyard ord stockyards inventory of
             None \<Rightarrow> filter (has_stock inventory (product_code ord) (quantity_tonnes ord)) stockyards = []
           | Some c \<Rightarrow> most_stocked inventory (product_code ord)
               (filter (has_stock inventory (product_code ord) (quantity_tonnes ord)) stockyards) c))"
proof (intro conjI impI)
  assume "latitude origin = Some 0 \<or> longitude origin = Some 0 \<or>
    latitude dest = Some 0 \<or> longitude dest = Some 0"
  then have "\<not> (truthy (latitude origin) \<and> truthy (longitude origin) \<and>
          truthy (latitude dest) \<and> truthy (longitude dest))"
    by auto
  then show "calculate_distance origin dest = 500"
    by (rule calculate_distance_fallback)
next
  assume a: "\<not> pinned ord \<and> (destination_latitude ord = Some 0 \<or> destination_longitude ord = Some 0)"
  then have nt: "\<not> (truthy (destination_latitude ord) \<and> truthy (destination_longitude ord))"
    by auto
  show "case select_source_stockyard ord stockyards inventory of
          None \<Rightarrow> filter (has_stock inventory (product_code ord) (quantity_tonnes ord)) stockyards = []
        | Some c \<Rightarrow> most_stocked inventory (product_code ord)
               (filter (has_stock inventory (product_code ord) (quantity_tonnes ord)) stockyards) c"
  proof (cases "select_source_stockyard ord stockyards inventory")
    case None
    with a have "filter (has_stock inventory (product_code ord) (quantity_tonnes ord)) stockyards = []"
      by (simp add: select_none_iff)
    with None show ?thesis by simp
  next
    case (Some c)
    with a nt show ?thesis by (simp add: select_most_stocked)
  qed
qed

theorem zero_coordinate_treated_as_missing_witness:
  "calculate_distance sy_far (destination_point equator_order) = 500 \<and>
   select_source_stockyard equator_order [sy_near, sy_far] two_yards = Some sy_far \<and>
   most_stocked two_yards ''COAL'' [sy_near, sy_far] sy_far \<and>
   \<not> most_stocked two_yards ''COAL'' [sy_near, sy_far] sy_near"
  using zero_coordinate_treated_as_missing[where origin = sy_far
      and dest = "destination_point equator_order" and ord = equator_order
      and stockyards = "[sy_near, sy_far]" and inventory = two_yards]
  by (simp add: select_source_stockyard_def pinned_def equator_order_def sy_near_def sy_far_def
      two_yards_def has_stock_def stock_key_def sort_key_reverse_def destination_point_def most_stocked_def)

text \<open>
  Claim C7, at an order whose destination lies on the equator (latitude 0, longitude 78):
  the order has both destination coordinates and is not pinned, both stockyards hold
  enough coal, and the yard at latitude 1 is 111 km from the destination while the yard
  at latitude 20 is 2224 km away. The selector answers with the far yard, the one with
  the larger stock: the truth test on the latitude reads 0 as absent.
\<close>

theorem select_source_stockyard_zero_latitude:
  "has_coordinates (destination_point equator_order) \<and>
   select_source_stockyard equator_order [sy_near, sy_far] two_yards = Some sy_far \<and>
   haversine_km 1 78 0 78 = 6371 * pi / 180 \<and>
   haversine_km 20 78 0 78 = 6371 * pi / 9 \<and>
   haversine_km 1 78 0 78 < haversine_km 20 78 0 78"
proof -
  have near: "haversine_km 1 78 0 78 = 6371 * pi / 180"
    using haversine_km_meridian[of 0 1 78] by simp
  have far: "haversine_km 20 78 0 78 = 6371 * pi / 9"
    using haversine_km_meridian[of 0 20 78] by simp
  have "select_source_stockyard equator_order [sy_near, sy_far] two_yards = Some sy_far"
    by (simp add: select_source_stockyard_def pinned_def equator_order_def sy_near_def sy_far_def
      two_yards_def has_stock_def stock_key_def sort_key_reverse_def)
  moreover have "has_coordinates (destination_point equator_order)"
    by (simp add: has_coordinates_def destination_point_def equator_order_def)
  moreover have "haversine_km 1 78 0 78 < haversine_km 20 78 0 78"
    using pi_gt_zero by (simp add: near far)
  moreover note near far
  ultimately show ?thesis by blast
qed

text \<open>
  Claim C8, at a stockyard at (20, 78) and a destination at (0, 78): both points have both
  coordinates, the great-circle distance is \<open>6371 * pi / 9\<close> km (about 2224 km), and the
  oracle returns the 500 km fallback.
\<close>

theorem calculate_distance_zero_latitude:
  "has_coordinates sy_far \<and> has_coordinates (destination_point equator_order) \<and>
   calculate_distance sy_far (destination_point equator_order) = 500 \<and>
   haversine_km 20 78 0 78 = 6371 * pi / 9 \<and>
   haversine_km 20 78 0 78 \<noteq> 500"
proof -
  have far: "haversine_km 20 78 0 78 = 6371 * pi / 9"
    using haversine_km_meridian[of 0 20 78] by simp
  have "6371 * pi / 9 > 500" using pi_ge_two by simp
  then have "haversine_km 20 78 0 78 \<noteq> 500" by (simp add: far)
  moreover have "calculate_distance sy_far (destination_point equator_order) = 500"
    by (simp add: calculate_distance_def destination_point_def equator_order_def)
  moreover have "has_coordinates sy_far \<and> has_coordinates (destination_point equator_order)"
    by (simp add: has_coordinates_def destination_point_def equator_order_def sy_far_def)
  moreover note far
  ultimately show ?thesis by blast
qed

section \<open>Properties of the greedy planner\<close>

text \<open>What the reservation block can do to the state.\<close>


lemma reserve_order_Inr_cases:
  assumes "reserve_order p ord sy st = Inr st'"
  obtains (skip) "st' = st"
  | (add) m available where
      "pk_inventory st (code sy) = Some m"
      "m (product_code ord) = Some available"
      "quantity_tonnes ord \<le> available"
      "current_weight st' = current_weight st + quantity_tonnes ord"
      "rake_orders st' = rake_orders st @
         [\<lparr>order_id = o_id ord, ao_order_number = order_number ord,
           ao_product_code = product_code ord, quantity = quantity_tonnes ord,
           ao_destination = destination ord,
           ao_freight_cost = calculate_distance sy (destination_point ord) * quantity_tonnes ord * freight_rate p\<rparr>]"
      "pk_inventory st' = (pk_inventory st)(code sy \<mapsto> m(product_code ord \<mapsto> available - quantity_tonnes ord))"
      "origin_stockyard st' = origin_stockyard st"
proof (cases "pk_inventory st (code sy)")
  case None
  with assms show ?thesis by (simp add: reserve_order_def)
next
  case m: (Some m)
  show ?thesis
  proof (cases "m (product_code ord)")
    case None
    with assms m have "st' = st" by (simp add: reserve_order_def)
    then show ?thesis by (rule skip)
  next
    case av: (Some available)
    show ?thesis
    proof (cases "quantity_tonnes ord \<le> available")
      case False
      with assms m av have "st' = st" by (simp add: reserve_order_def)
      then show ?thesis by (rule skip)
    next
      case True
      with assms m av have st': "st' = st\<lparr>
          pk_inventory := (pk_inventory st)(code sy \<mapsto> m(product_code ord \<mapsto> available - quantity_tonnes ord)),
          current_weight := current_weight st + quantity_tonnes ord,
          pk_destinations := (if destination ord \<in> set (pk_destinations st) then pk_destinations st
                          else pk_destinations st @ [destination ord]),
          pk_freight_cost := pk_freight_cost st +
             calculate_distance sy (destination_point ord) * quantity_tonnes ord * freight_rate p,
          rake_orders := rake_orders st @
            [\<lparr>order_id = o_id ord, ao_order_number = order_number ord,
              ao_product_code = product_code ord, quantity = quantity_tonnes ord,
              ao_destination = destination ord,
              ao_freight_cost = calculate_distance sy (destination_point ord) * quantity_tonnes ord * freight_rate p\<rparr>]\<rparr>"
        by (simp add: reserve_order_def Let_def)
      show ?thesis
        by (rule add[OF m av True]) (simp_all add: st')
    qed
  qed
qed

text \<open>What one pass of the loop body can do to the state.\<close>

lemma pack_order_Inr_cases:
  assumes "pack_order p cap assigned stockyards ord st = Inr st'"
  obtains (skip) "st' = st"
  | (origin) sy where "origin_stockyard st = None" "st' = st\<lparr>origin_stockyard := Some sy\<rparr>"
  | (add) sy :: stockyard and m available where
      "o_id ord \<notin> assigned"
      "current_weight st + quantity_tonnes ord \<le> cap"
      "pk_inventory st (code sy) = Some m"
      "m (product_code ord) = Some available"
      "quantity_tonnes ord \<le> available"
      "current_weight st' = current_weight st + quantity_tonnes ord"
      "rake_orders st' = rake_orders st @
         [\<lparr>order_id = o_id ord, ao_order_number = order_number ord,
           ao_product_code = product_code ord, quantity = quantity_tonnes ord,
           ao_destination = destination ord,
           ao_freight_cost = calculate_distance sy (destination_point ord) * quantity_tonnes ord * freight_rate p\<rparr>]"
      "pk_inventory st' = (pk_inventory st)(code sy \<mapsto> m(product_code ord \<mapsto> available - quantity_tonnes ord))"
      "map_option code (origin_stockyard st') = Some (code sy)"
      "origin_stockyard st = None \<or> origin_stockyard st' = origin_stockyard st"
proof (cases "o_id ord \<in> assigned \<or> current_weight st + quantity_tonnes ord > cap \<or>
    (\<not> allow_multi_dest p \<and> pk_destinations st \<noteq> [] \<and> destination ord \<notin> set (pk_destinations st))")
  case True
  with assms have "st' = st" by (auto simp add: pack_order_def split: if_splits)
  then show ?thesis by (rule skip)
next
  case guards: False
  show ?thesis
  proof (cases "select_source_stockyard ord stockyards (pk_inventory st)")
    case None
    with assms guards have "st' = st" by (auto simp add: pack_order_def)
    then show ?thesis by (rule skip)
  next
    case sel: (Some sy)
    show ?thesis
    proof (cases "origin_stockyard st")
      case None
      with assms guards sel have r: "reserve_order p ord sy (st\<lparr>origin_stockyard := Some sy\<rparr>) = Inr st'"
        by (auto simp add: pack_order_def)
      from r show ?thesis
      proof (cases rule: reserve_order_Inr_cases)
        case skip
        with None show ?thesis by (intro origin) simp_all
      next
        case (add m available)
        with guards None show ?thesis
          by (intro that(3)[where sy=sy and m=m and available=available]) simp_all
      qed
    next
      case og: (Some origin)
      show ?thesis
      proof (cases "code sy \<noteq> code origin")
        case True
        with assms guards sel og have "st' = st" by (auto simp add: pack_order_def)
        then show ?thesis by (rule skip)
      next
        case False
        with assms guards sel og have r: "reserve_order p ord sy st = Inr st'"
          by (auto simp add: pack_order_def)
        from r show ?thesis
        proof (cases rule: reserve_order_Inr_cases)
          case skip
          then show ?thesis by (rule that(1))
        next
          case (add m available)
          with guards og False show ?thesis
            by (intro that(3)[where sy=sy and m=m and available=available]) simp_all
        qed
      qed
    qed
  qed
qed





section \<open>Properties of the CP-SAT planner\<close>




text \<open>
  Every rake that the extraction emits comes from one rake of the input and carries the
  orders the solution selects for it; the set of assigned ids grows by the selection of
  every rake visited, emitted or not.
\<close>

lemma extract_rakes_emitted:
  assumes "extract_rakes p x ords jrks (prs, assigned) = Inr (prs', assigned')"
  shows "(\<forall>r\<in>set prs'. r \<in> set prs \<or>
            (\<exists>(j, rk)\<in>set jrks.
               rake_selection x ords j \<noteq> [] \<and>
               min_rake_size p \<le> sum_list (map quantity_tonnes (rake_selection x ords j)) \<and>
               map quantity (orders r) = map quantity_tonnes (rake_selection x ords j) \<and>
               map order_id (orders r) = map o_id (rake_selection x ords j) \<and>
               total_weight r = sum_list (map quantity_tonnes (rake_selection x ords j)) \<and>
               capacity r = total_capacity_tonnes rk \<and>
               pr_rake_number r = rake_number rk)) \<and>
         assigned' = assigned \<union> (\<Union>(j, rk)\<in>set jrks. set (map o_id (rake_selection x ords j))) \<and>
         set prs \<subseteq> set prs'"
  using assms
proof (induction jrks arbitrary: prs assigned)
  case Nil
  then show ?case by simp
next
  case (Cons jrk rest)
  obtain j rk where jrk: "jrk = (j, rk)" by (cases jrk)
  let ?sel = "rake_selection x ords j"
  let ?assigned1 = "assigned \<union> set (map o_id ?sel)"
  show ?case
  proof (cases "?sel \<noteq> [] \<and> sum_list (map quantity_tonnes ?sel) \<ge> min_rake_size p")
    case emit: True
    with Cons.prems jrk have cap: "total_capacity_tonnes rk \<noteq> 0"
      by (auto simp add: Let_def split: if_splits)
    define r where "r = \<lparr>pr_rake_number = rake_number rk,
                     origin_stockyard_code = None,
                     origin_stockyard_name = None,
                     destinations = remdups (map destination ?sel),
                     orders = map (\<lambda>ord. \<lparr>order_id = o_id ord,
                                           ao_order_number = order_number ord,
                                           ao_product_code = product_code ord,
                                           quantity = quantity_tonnes ord,
                                           ao_destination = destination ord,
                                           ao_freight_cost = 0\<rparr>) ?sel,
                     order_ids = map o_id ?sel,
                     total_weight = sum_list (map quantity_tonnes ?sel),
                     capacity = total_capacity_tonnes rk,
                     pr_utilization_pct = (sum_list (map quantity_tonnes ?sel) / total_capacity_tonnes rk) * 100,
                     pr_freight_cost = sum_list (map quantity_tonnes ?sel) * 500 * freight_rate p,
                     pr_demurrage_cost = 0,
                     pr_idle_cost = 0,
                     wagon_type = wagon_type_code rk,
                     pr_num_wagons = num_wagons rk\<rparr>"
    from Cons.prems jrk emit cap
    have run: "extract_rakes p x ords rest (prs @ [r], ?assigned1) = Inr (prs', assigned')"
      by (simp add: Let_def r_def)
    have r_facts: "map quantity (orders r) = map quantity_tonnes ?sel"
      "map order_id (orders r) = map o_id ?sel"
      "total_weight r = sum_list (map quantity_tonnes ?sel)"
      "capacity r = total_capacity_tonnes rk" "pr_rake_number r = rake_number rk"
      by (simp_all add: r_def comp_def)
    from Cons.IH[OF run] r_facts emit jrk show ?thesis
      by (auto simp add: Un_assoc)
  next
    case skip: False
    with Cons.prems jrk
    have run: "extract_rakes p x ords rest (prs, ?assigned1) = Inr (prs', assigned')"
      by (auto simp add: Let_def split: if_splits)
    from Cons.IH[OF run] jrk show ?thesis
      by (auto simp add: Un_assoc)
  qed
qed




section \<open>The invariants of planned rakes and the count of fulfilled orders\<close>


lemmas example_defs = coal_order_def coal_yard_def boxn_rake_def default_config_def
  failing_solver_def assign_none_def

lemmas greedy_defs = GreedyPlanner_plan_def plan_run_def pack_rake_def pack_order_def
  reserve_order_def select_source_stockyard_def pinned_def has_stock_def stock_key_def
  sort_key_reverse_def initial_inventory_def order_key_def GreedyPlanner_def get_or_def
  calculate_utilization_def calculate_distance_def destination_point_def

lemmas ortools_defs = ORToolsPlanner_plan_def extract_solution_def rake_selection_def
  ORToolsPlanner_def cp_constraints_def cp_objective_def py_int_def with_algorithm_def
  get_or_def

lemma min_rake_size_planners [simp]:
  "min_rake_size (GreedyPlanner cfg) = get_or 1000 (cfg_min_rake_size cfg)"
  "min_rake_size (ORToolsPlanner cfg) = get_or 1000 (cfg_min_rake_size cfg)"
  by (simp_all add: GreedyPlanner_def ORToolsPlanner_def)






text \<open>
  What the extraction reports as fulfilled: the orders the solution puts on any rake,
  emitted or not.
\<close>

lemma extract_solution_orders_fulfilled:
  assumes "extract_solution p x ords stockyards rks = Inr pl"
  shows "orders_fulfilled pl =
           card (\<Union>(j, rk)\<in>set (enumerate 0 rks). set (map o_id (rake_selection x ords j)))"
proof -
  from assms obtain prs assigned where
    ex: "extract_rakes p x ords (enumerate 0 rks) ([], {}) = Inr (prs, assigned)"
    and pl: "orders_fulfilled pl = card assigned"
    by (auto simp add: extract_solution_def Let_def split: sum.splits)
  from extract_rakes_emitted[OF ex] pl show ?thesis by simp
qed


















section \<open>The inventory ledger within one greedy run\<close>


lemma reserved_Nil [simp]: "reserved [] product = 0"
  by (simp add: reserved_def)

lemma reserved_snoc:
  "reserved (aos @ [a]) product =
     reserved aos product + (if ao_product_code a = product then quantity a else 0)"
  by (simp add: reserved_def)

lemma remaining_upd:
  "remaining (inventory(c0 \<mapsto> m(p0 \<mapsto> v))) c product =
     (if c = c0 then (if product = p0 then Some v else m product) else remaining inventory c product)"
  by (simp add: remaining_def)

lemma pack_order_ledger:
  assumes step: "pack_order p cap assigned stockyards ord st = Inr st'"
    and acc: "ledger_accounts inventory st"
  shows "ledger_accounts inventory st'"
  using step
proof (cases rule: pack_order_Inr_cases)
  case skip
  with acc show ?thesis by simp
next
  case (origin sy)
  from acc origin(1) have "rake_orders st = []" by (auto simp add: ledger_accounts_def)
  with acc origin show ?thesis
    by (simp add: ledger_accounts_def reserved_at_def)
next
  case (add sy m available)
  let ?a = "\<lparr>order_id = o_id ord, ao_order_number = order_number ord,
           ao_product_code = product_code ord, quantity = quantity_tonnes ord,
           ao_destination = destination ord,
           ao_freight_cost = calculate_distance sy (destination_point ord) * quantity_tonnes ord * freight_rate p\<rparr>"
  from add(9) have og': "origin_stockyard st' \<noteq> None" by auto
  have same: "reserved_at (map_option code (origin_stockyard st)) (rake_orders st) c product =
              reserved_at (Some (code sy)) (rake_orders st) c product" for c product
  proof (cases "origin_stockyard st")
    case None
    with acc have "rake_orders st = []" by (auto simp add: ledger_accounts_def)
    then show ?thesis by (simp add: reserved_at_def)
  next
    case (Some og)
    with add(9,10) show ?thesis by auto
  qed
  have entry: "remaining (pk_inventory st') c product =
         map_option (\<lambda>v. v - reserved_at (map_option code (origin_stockyard st')) (rake_orders st') c product)
           (remaining inventory c product)" for c product
  proof -
    from acc same have old: "remaining (pk_inventory st) c product =
         map_option (\<lambda>v. v - reserved_at (Some (code sy)) (rake_orders st) c product)
           (remaining inventory c product)"
      by (simp add: ledger_accounts_def)
    show ?thesis
    proof (cases "c = code sy \<and> product = product_code ord")
      case True
      from add(3,4) True have "remaining (pk_inventory st) c product = Some available"
        by (simp add: remaining_def)
      with old obtain v0 where v0: "remaining inventory c product = Some v0"
        "available = v0 - reserved_at (Some (code sy)) (rake_orders st) c product"
        by (cases "remaining inventory c product") auto
      from True add(8) have "remaining (pk_inventory st') c product = Some (available - quantity_tonnes ord)"
        by (simp add: remaining_upd)
      with v0 True add(7) show ?thesis unfolding add(9)
        by (simp add: reserved_at_def reserved_snoc)
    next
      case False
      with add(3,8) have "remaining (pk_inventory st') c product = remaining (pk_inventory st) c product"
        by (auto simp add: remaining_upd remaining_def)
      moreover from False add(7)
      have "reserved_at (Some (code sy)) (rake_orders st') c product =
            reserved_at (Some (code sy)) (rake_orders st) c product"
        by (auto simp add: reserved_at_def reserved_snoc)
      ultimately show ?thesis using old unfolding add(9) by simp
    qed
  qed
  from og' entry show ?thesis by (simp add: ledger_accounts_def)
qed

lemma pack_orders_ledger:
  assumes "pack_orders p cap assigned stockyards ords st = Inr st'"
    and "ledger_accounts inventory st"
  shows "ledger_accounts inventory st'"
  using assms
proof (induction ords arbitrary: st)
  case Nil
  then show ?case by simp
next
  case (Cons ord rest)
  from Cons.prems(1) obtain st1 where
    step: "pack_order p cap assigned stockyards ord st = Inr st1" and
    rest: "pack_orders p cap assigned stockyards rest st1 = Inr st'"
    by (auto split: sum.splits)
  from step Cons.prems(2) have "ledger_accounts inventory st1" by (rule pack_order_ledger)
  with rest show ?case by (rule Cons.IH)
qed

lemma pack_orders_quantities:
  assumes "pack_orders p cap assigned stockyards ords st = Inr st'"
    and "\<forall>a\<in>set (rake_orders st). 0 \<le> quantity a"
    and "\<forall>ord\<in>set ords. 0 \<le> quantity_tonnes ord"
  shows "\<forall>a\<in>set (rake_orders st'). 0 \<le> quantity a"
  using assms
proof (induction ords arbitrary: st)
  case Nil
  then show ?case by simp
next
  case (Cons ord rest)
  from Cons.prems(1) obtain st1 where
    step: "pack_order p cap assigned stockyards ord st = Inr st1" and
    rest: "pack_orders p cap assigned stockyards rest st1 = Inr st'"
    by (auto split: sum.splits)
  from step have "\<forall>a\<in>set (rake_orders st1). 0 \<le> quantity a"
  proof (cases rule: pack_order_Inr_cases)
    case skip
    with Cons.prems(2) show ?thesis by simp
  next
    case (origin sy)
    with Cons.prems(2) show ?thesis by simp
  next
    case (add sy m available)
    with Cons.prems(2,3) show ?thesis by simp
  qed
  moreover from Cons.prems(3) have "\<forall>ord\<in>set rest. 0 \<le> quantity_tonnes ord" by simp
  ultimately show ?case using rest by (intro Cons.IH)
qed

lemma reserved_nonneg:
  assumes "\<forall>a\<in>set aos. 0 \<le> quantity a"
  shows "0 \<le> reserved aos product"
  using assms by (induction aos) (auto simp add: reserved_def)

text \<open>What packing one rake does to the ledger, whether it yields a pack or not.\<close>

lemma pack_rake_ledger:
  assumes "pack_rake p rk ords assigned stockyards inventory = Inr (rake_plan, inventory')"
  shows "\<forall>c product. remaining inventory' c product =
           map_option (\<lambda>v. v - (case rake_plan of None \<Rightarrow> 0
              | Some rp \<Rightarrow> reserved_at (origin_stockyard_code rp) (orders rp) c product))
             (remaining inventory c product)"
proof -
  let ?st0 = "\<lparr>current_weight = 0, rake_orders = [], pk_destinations = [],
              origin_stockyard = None, pk_freight_cost = 0, pk_inventory = inventory\<rparr>"
  from assms obtain st where
    run: "pack_orders p (total_capacity_tonnes rk) assigned stockyards ords ?st0 = Inr st"
    by (auto simp add: pack_rake_def Let_def split: sum.splits)
  have "ledger_accounts inventory ?st0"
    by (simp add: ledger_accounts_def reserved_at_def option.map_id0 map_option.identity)
  with run have acc: "ledger_accounts inventory st" by (rule pack_orders_ledger)
  show ?thesis
  proof (cases "rake_orders st = []")
    case True
    with assms run have "rake_plan = None" "inventory' = pk_inventory st"
      by (auto simp add: pack_rake_def Let_def)
    with acc True show ?thesis
      by (simp add: ledger_accounts_def reserved_at_def)
  next
    case False
    with assms run obtain rp where "rake_plan = Some rp" "inventory' = pk_inventory st"
      "orders rp = rake_orders st" "origin_stockyard_code rp = map_option code (origin_stockyard st)"
      by (auto simp add: pack_rake_def Let_def split: if_splits)
    with acc show ?thesis
      by (simp add: ledger_accounts_def)
  qed
qed

lemma pack_rake_quantities:
  assumes "pack_rake p rk ords assigned stockyards inventory = Inr (Some rp, inventory')"
    and "\<forall>ord\<in>set ords. 0 \<le> quantity_tonnes ord"
  shows "\<forall>a\<in>set (orders rp). 0 \<le> quantity a"
proof -
  let ?st0 = "\<lparr>current_weight = 0, rake_orders = [], pk_destinations = [],
              origin_stockyard = None, pk_freight_cost = 0, pk_inventory = inventory\<rparr>"
  from assms obtain st where
    run: "pack_orders p (total_capacity_tonnes rk) assigned stockyards ords ?st0 = Inr st"
    by (auto simp add: pack_rake_def Let_def split: sum.splits)
  from run have "\<forall>a\<in>set (rake_orders st). 0 \<le> quantity a"
    by (rule pack_orders_quantities) (simp_all add: assms(2))
  moreover from assms(1) run have "orders rp = rake_orders st"
    by (auto simp add: pack_rake_def Let_def split: if_splits)
  ultimately show ?thesis by simp
qed

lemma ledger_le_refl: "ledger_le inventory inventory"
  by (auto simp add: ledger_le_def split: option.splits)

lemma ledger_le_trans:
  assumes "ledger_le c b" "ledger_le b a"
  shows "ledger_le c a"
  unfolding ledger_le_def
proof (intro allI)
  fix s product
  from assms(1) have 1: "case remaining b s product of None \<Rightarrow> remaining c s product = None
     | Some v \<Rightarrow> (case remaining c s product of None \<Rightarrow> False | Some v' \<Rightarrow> v' \<le> v)"
    by (simp add: ledger_le_def)
  from assms(2) have 2: "case remaining a s product of None \<Rightarrow> remaining b s product = None
     | Some v \<Rightarrow> (case remaining b s product of None \<Rightarrow> False | Some v' \<Rightarrow> v' \<le> v)"
    by (simp add: ledger_le_def)
  from 1 2 show "case remaining a s product of None \<Rightarrow> remaining c s product = None
     | Some v \<Rightarrow> (case remaining c s product of None \<Rightarrow> False | Some v' \<Rightarrow> v' \<le> v)"
    by (auto split: option.splits)
qed

lemma pack_rake_ledger_le:
  assumes "pack_rake p rk ords assigned stockyards inventory = Inr (rake_plan, inventory')"
    and "\<forall>ord\<in>set ords. 0 \<le> quantity_tonnes ord"
  shows "ledger_le inventory' inventory"
  unfolding ledger_le_def
proof (intro allI)
  fix c product
  let ?r = "case rake_plan of None \<Rightarrow> 0
              | Some rp \<Rightarrow> reserved_at (origin_stockyard_code rp) (orders rp) c product"
  have "0 \<le> ?r"
  proof (cases rake_plan)
    case None
    then show ?thesis by simp
  next
    case (Some rp)
    with assms have "\<forall>a\<in>set (orders rp). 0 \<le> quantity a"
      using pack_rake_quantities[of p rk ords assigned stockyards inventory rp inventory'] by simp
    then have "0 \<le> reserved (orders rp) product" by (rule reserved_nonneg)
    with Some show ?thesis by (simp add: reserved_at_def)
  qed
  moreover from pack_rake_ledger[OF assms(1)]
  have "remaining inventory' c product = map_option (\<lambda>v. v - ?r) (remaining inventory c product)"
    by simp
  ultimately show "case remaining inventory c product of None \<Rightarrow> remaining inventory' c product = None
     | Some v \<Rightarrow> (case remaining inventory' c product of None \<Rightarrow> False | Some v' \<Rightarrow> v' \<le> v)"
    by (cases "remaining inventory c product") simp_all
qed

lemma plan_loop_ledger_le:
  assumes "plan_loop p ords stockyards rks st = Inr st'"
    and "\<forall>ord\<in>set ords. 0 \<le> quantity_tonnes ord"
  shows "ledger_le (stockyard_inventory st') (stockyard_inventory st)"
  using assms(1)
proof (induction rks arbitrary: st)
  case Nil
  then show ?case by (simp add: ledger_le_refl)
next
  case (Cons rk rest)
  show ?case
  proof (cases "card (assigned_orders st) \<ge> length ords")
    case True
    with Cons.prems show ?thesis by (simp add: ledger_le_refl)
  next
    case False
    with Cons.prems obtain rake_plan inventory' where
      pk: "pack_rake p rk ords (assigned_orders st) stockyards (stockyard_inventory st)
             = Inr (rake_plan, inventory')"
      by (auto split: sum.splits)
    from pk assms(2) have le1: "ledger_le inventory' (stockyard_inventory st)"
      by (rule pack_rake_ledger_le)
    from Cons.prems False pk obtain st1 where
      next_run: "plan_loop p ords stockyards rest st1 = Inr st'"
      and inv1: "stockyard_inventory st1 = inventory'"
      by (cases rake_plan) (auto split: if_splits)
    from Cons.IH[OF next_run] inv1 have "ledger_le (stockyard_inventory st') inventory'" by simp
    then show ?thesis using le1 by (rule ledger_le_trans)
  qed
qed


lemma shipped_snoc:
  "shipped (prs @ [rp]) c product =
     shipped prs c product + reserved_at (origin_stockyard_code rp) (orders rp) c product"
  by (simp add: shipped_def)

lemma ledger_within_keep:
  assumes "ledger_within inventory initial prs"
    and "\<forall>c product. remaining inventory' c product =
           map_option (\<lambda>v. v - reserved_at (origin_stockyard_code rp) (orders rp) c product)
             (remaining inventory c product)"
  shows "ledger_within inventory' initial (prs @ [rp])"
  unfolding ledger_within_def
proof (intro allI)
  fix c product
  from assms(1) have 1: "case remaining initial c product of
          None \<Rightarrow> remaining inventory c product = None
        | Some v \<Rightarrow> (case remaining inventory c product of
                       None \<Rightarrow> False
                     | Some v' \<Rightarrow> v' \<le> v - shipped prs c product)"
    by (simp add: ledger_within_def)
  from assms(2) have 2: "remaining inventory' c product =
           map_option (\<lambda>v. v - reserved_at (origin_stockyard_code rp) (orders rp) c product)
             (remaining inventory c product)"
    by simp
  from 1 2 show "case remaining initial c product of
          None \<Rightarrow> remaining inventory' c product = None
        | Some v \<Rightarrow> (case remaining inventory' c product of
                       None \<Rightarrow> False
                     | Some v' \<Rightarrow> v' \<le> v - shipped (prs @ [rp]) c product)"
    by (auto simp add: shipped_snoc split: option.splits)
qed

lemma ledger_within_le:
  assumes "ledger_within inventory initial prs" and "ledger_le inventory' inventory"
  shows "ledger_within inventory' initial prs"
  unfolding ledger_within_def
proof (intro allI)
  fix c product
  from assms(1) have 1: "case remaining initial c product of
          None \<Rightarrow> remaining inventory c product = None
        | Some v \<Rightarrow> (case remaining inventory c product of
                       None \<Rightarrow> False
                     | Some v' \<Rightarrow> v' \<le> v - shipped prs c product)"
    by (simp add: ledger_within_def)
  from assms(2) have 2: "case remaining inventory c product of
          None \<Rightarrow> remaining inventory' c product = None
        | Some v \<Rightarrow> (case remaining inventory' c product of None \<Rightarrow> False | Some v' \<Rightarrow> v' \<le> v)"
    by (simp add: ledger_le_def)
  from 1 2 show "case remaining initial c product of
          None \<Rightarrow> remaining inventory' c product = None
        | Some v \<Rightarrow> (case remaining inventory' c product of
                       None \<Rightarrow> False
                     | Some v' \<Rightarrow> v' \<le> v - shipped prs c product)"
    by (auto split: option.splits)
qed

text \<open>
  Across the loop over the rakes the ledger stays within the ledger of the start less the
  tonnage of the rakes kept so far.
\<close>

lemma plan_loop_ledger_within:
  assumes "plan_loop p ords stockyards rks st = Inr st'"
    and "\<forall>ord\<in>set ords. 0 \<le> quantity_tonnes ord"
    and "ledger_within (stockyard_inventory st) initial (plan_rakes st)"
  shows "ledger_within (stockyard_inventory st') initial (plan_rakes st')"
  using assms(1,3)
proof (induction rks arbitrary: st)
  case Nil
  then show ?case by simp
next
  case (Cons rk rest)
  show ?case
  proof (cases "card (assigned_orders st) \<ge> length ords")
    case True
    with Cons.prems show ?thesis by simp
  next
    case False
    with Cons.prems(1) obtain rake_plan inventory' where
      pk: "pack_rake p rk ords (assigned_orders st) stockyards (stockyard_inventory st)
             = Inr (rake_plan, inventory')"
      by (auto split: sum.splits)
    show ?thesis
    proof (cases "\<exists>rp. rake_plan = Some rp \<and> total_weight rp \<ge> min_rake_size p")
      case keep: True
      then obtain rp where rp: "rake_plan = Some rp" "total_weight rp \<ge> min_rake_size p" by blast
      let ?st1 = "st\<lparr>plan_rakes := plan_rakes st @ [rp],
                             total_freight := total_freight st + pr_freight_cost rp,
                             total_demurrage := total_demurrage st + pr_demurrage_cost rp,
                             total_idle := total_idle st + pr_idle_cost rp,
                             assigned_orders := assigned_orders st \<union> set (order_ids rp),
                             stockyard_inventory := inventory'\<rparr>"
      from Cons.prems(1) False pk rp
      have next_run: "plan_loop p ords stockyards rest ?st1 = Inr st'" by simp
      from pack_rake_ledger[OF pk] rp
      have "\<forall>c product. remaining inventory' c product =
           map_option (\<lambda>v. v - reserved_at (origin_stockyard_code rp) (orders rp) c product)
             (remaining (stockyard_inventory st) c product)"
        by simp
      with Cons.prems(2) have "ledger_within inventory' initial (plan_rakes st @ [rp])"
        by (rule ledger_within_keep)
      then have "ledger_within (stockyard_inventory ?st1) initial (plan_rakes ?st1)" by simp
      with next_run show ?thesis by (rule Cons.IH)
    next
      case drop: False
      let ?st1 = "st\<lparr>stockyard_inventory := inventory'\<rparr>"
      from Cons.prems(1) False pk drop
      have next_run: "plan_loop p ords stockyards rest ?st1 = Inr st'"
        by (cases rake_plan) (auto split: if_splits)
      from pk assms(2) have "ledger_le inventory' (stockyard_inventory st)"
        by (rule pack_rake_ledger_le)
      with Cons.prems(2) have "ledger_within inventory' initial (plan_rakes st)"
        by (rule ledger_within_le)
      then have "ledger_within (stockyard_inventory ?st1) initial (plan_rakes ?st1)" by simp
      with next_run show ?thesis by (rule Cons.IH)
    qed
  qed
qed

lemma ledger_within_Nil: "ledger_within inventory inventory []"
  by (auto simp add: ledger_within_def shipped_def split: option.splits)

text \<open>
  Claim C9. With order quantities that are not negative, no entry of the ledger grows
  within a greedy run: the ledger at the end of the run, and after any part of the loop
  over the rakes, is entry by entry at most the ledger before, and at most the ledger of
  the start less the tonnage of the rakes kept by then. Packing a rake takes from the
  entries of the pack's origin exactly the tonnage of the orders of the pack. Whatever
  becomes of the pack, the loop goes on to the later rakes with that reduced ledger: when
  the pack is discarded for a weight below the minimum rake size, with no other change of
  its state; when the pack is kept, with the pack, its costs and its order ids added;
  when there is no pack, with the ledger the packing returned.
\<close>

theorem ledger_never_released:
  "((\<forall>ord\<in>set ords. 0 \<le> quantity_tonnes ord) \<and> plan_run p ords stockyards rks = Inr final
      \<longrightarrow> ledger_le (stockyard_inventory final) (initial_inventory stockyards) \<and>
          ledger_within (stockyard_inventory final) (initial_inventory stockyards) (plan_rakes final)) \<and>
   ((\<forall>ord\<in>set ords. 0 \<le> quantity_tonnes ord) \<and> plan_loop p ords stockyards rks st = Inr st'
      \<longrightarrow> ledger_le (stockyard_inventory st') (stockyard_inventory st)) \<and>
   ((\<forall>ord\<in>set ords. 0 \<le> quantity_tonnes ord) \<and> plan_loop p ords stockyards rks st = Inr st' \<and>
    ledger_within (stockyard_inventory st) initial (plan_rakes st)
      \<longrightarrow> ledger_within (stockyard_inventory st') initial (plan_rakes st')) \<and>
   (pack_rake p rk ords assigned stockyards inventory = Inr (rake_plan, inventory')
      \<longrightarrow> (\<forall>c product. remaining inventory' c product =
             map_option (\<lambda>v. v - (case rake_plan of None \<Rightarrow> 0
                | Some rp \<Rightarrow> reserved_at (origin_stockyard_code rp) (orders rp) c product))
               (remaining inventory c product))) \<and>
   (pack_rake p rk ords (assigned_orders st) stockyards (stockyard_inventory st) = Inr (Some rp, inventory') \<and>
    total_weight rp < min_rake_size p \<and> card (assigned_orders st) < length ords
      \<longrightarrow> plan_loop p ords stockyards (rk # rest) st =
          plan_loop p ords stockyards rest (st\<lparr>stockyard_inventory := inventory'\<rparr>)) \<and>
   (pack_rake p rk ords (assigned_orders st) stockyards (stockyard_inventory st) = Inr (Some rp, inventory') \<and>
    min_rake_size p \<le> total_weight rp \<and> card (assigned_orders st) < length ords
      \<longrightarrow> plan_loop p ords stockyards (rk # rest) st =
          plan_loop p ords stockyards rest
            (st\<lparr>plan_rakes := plan_rakes st @ [rp],
                total_freight := total_freight st + pr_freight_cost rp,
                total_demurrage := total_demurrage st + pr_demurrage_cost rp,
                total_idle := total_idle st + pr_idle_cost rp,
                assigned_orders := assigned_orders st \<union> set (order_ids rp),
                stockyard_inventory := inventory'\<rparr>)) \<and>
   (pack_rake p rk ords (assigned_orders st) stockyards (stockyard_inventory st) = Inr (None, inventory') \<and>
    card (assigned_orders st) < length ords
      \<longrightarrow> plan_loop p ords stockyards (rk # rest) st =
          plan_loop p ords stockyards rest (st\<lparr>stockyard_inventory := inventory'\<rparr>))"
proof (intro conjI impI)
  assume a: "(\<forall>ord\<in>set ords. 0 \<le> quantity_tonnes ord) \<and> plan_run p ords stockyards rks = Inr final"
  let ?st0 = "\<lparr>plan_rakes = [], assigned_orders = {}, total_freight = 0, total_demurrage = 0,
        total_idle = 0, stockyard_inventory = initial_inventory stockyards\<rparr>"
  from a have run: "plan_loop p (sort_key order_key ords) stockyards
       (filter (\<lambda>r. status r = Some ''available'') rks) ?st0 = Inr final"
    by (simp add: plan_run_def)
  from a have nonneg: "\<forall>ord\<in>set (sort_key order_key ords). 0 \<le> quantity_tonnes ord" by simp
  from run nonneg have "ledger_le (stockyard_inventory final) (stockyard_inventory ?st0)"
    by (rule plan_loop_ledger_le)
  then show "ledger_le (stockyard_inventory final) (initial_inventory stockyards)" by simp
  have "ledger_within (stockyard_inventory ?st0) (initial_inventory stockyards) (plan_rakes ?st0)"
    by (simp add: ledger_within_Nil)
  with run nonneg
  show "ledger_within (stockyard_inventory final) (initial_inventory stockyards) (plan_rakes final)"
    by (rule plan_loop_ledger_within)
next
  assume "(\<forall>ord\<in>set ords. 0 \<le> quantity_tonnes ord) \<and> plan_loop p ords stockyards rks st = Inr st'"
  then show "ledger_le (stockyard_inventory st') (stockyard_inventory st)"
    using plan_loop_ledger_le by blast
next
  assume "(\<forall>ord\<in>set ords. 0 \<le> quantity_tonnes ord) \<and> plan_loop p ords stockyards rks st = Inr st' \<and>
    ledger_within (stockyard_inventory st) initial (plan_rakes st)"
  then show "ledger_within (stockyard_inventory st') initial (plan_rakes st')"
    using plan_loop_ledger_within by blast
next
  assume "pack_rake p rk ords assigned stockyards inventory = Inr (rake_plan, inventory')"
  from pack_rake_ledger[OF this]
  show "\<forall>c product. remaining inventory' c product =
             map_option (\<lambda>v. v - (case rake_plan of None \<Rightarrow> 0
                | Some rp \<Rightarrow> reserved_at (origin_stockyard_code rp) (orders rp) c product))
               (remaining inventory c product)" .
next
  assume "pack_rake p rk ords (assigned_orders st) stockyards (stockyard_inventory st) = Inr (Some rp, inventory') \<and>
    total_weight rp < min_rake_size p \<and> card (assigned_orders st) < length ords"
  then show "plan_loop p ords stockyards (rk # rest) st =
          plan_loop p ords stockyards rest (st\<lparr>stockyard_inventory := inventory'\<rparr>)"
    by simp
next
  assume "pack_rake p rk ords (assigned_orders st) stockyards (stockyard_inventory st) = Inr (Some rp, inventory') \<and>
    min_rake_size p \<le> total_weight rp \<and> card (assigned_orders st) < length ords"
  then show "plan_loop p ords stockyards (rk # rest) st =
          plan_loop p ords stockyards rest
            (st\<lparr>plan_rakes := plan_rakes st @ [rp],
                total_freight := total_freight st + pr_freight_cost rp,
                total_demurrage := total_demurrage st + pr_demurrage_cost rp,
                total_idle := total_idle st + pr_idle_cost rp,
                assigned_orders := assigned_orders st \<union> set (order_ids rp),
                stockyard_inventory := inventory'\<rparr>)"
    by simp
next
  assume "pack_rake p rk ords (assigned_orders st) stockyards (stockyard_inventory st) = Inr (None, inventory') \<and>
    card (assigned_orders st) < length ords"
  then show "plan_loop p ords stockyards (rk # rest) st =
          plan_loop p ords stockyards rest (st\<lparr>stockyard_inventory := inventory'\<rparr>)"
    by simp
qed

theorem ledger_never_released_witness:
  "remaining (initial_inventory [coal_yard 1000]) ''SY001'' ''COAL'' = Some 1000 \<and>
   (case plan_run (GreedyPlanner default_config) [coal_order ''o1'' 600 1] [coal_yard 1000]
           [boxn_rake ''RK001'', boxn_rake ''RK002''] of
      Inl e \<Rightarrow> False
    | Inr final \<Rightarrow>
        plan_rakes final = [] \<and> assigned_orders final = {} \<and>
        remaining (stockyard_inventory final) ''SY001'' ''COAL'' = Some 400 \<and>
        ledger_le (stockyard_inventory final) (initial_inventory [coal_yard 1000])) \<and>
   (case pack_rake (GreedyPlanner default_config) (boxn_rake ''RK001'') [coal_order ''o1'' 600 1] {}
           [coal_yard 1000] (initial_inventory [coal_yard 1000]) of
      Inl e \<Rightarrow> False
    | Inr (rake_plan, inventory') \<Rightarrow>
        map_option total_weight rake_plan = Some 600 \<and>
        remaining inventory' ''SY001'' ''COAL'' = Some 400) \<and>
   (case plan_run (GreedyPlanner default_config) [coal_order ''o1'' 3000 1, coal_order ''o2'' 3000 2]
           [coal_yard 3000] [boxn_rake ''RK001'', boxn_rake ''RK002''] of
      Inl e \<Rightarrow> False
    | Inr final \<Rightarrow>
        map total_weight (plan_rakes final) = [3000] \<and> assigned_orders final = {''o1''} \<and>
        shipped (plan_rakes final) ''SY001'' ''COAL'' = 3000 \<and>
        remaining (stockyard_inventory final) ''SY001'' ''COAL'' = Some 0 \<and>
        ledger_within (stockyard_inventory final) (initial_inventory [coal_yard 3000]) (plan_rakes final))"
proof -
  let ?p = "GreedyPlanner default_config"
  let ?run = "plan_run ?p [coal_order ''o1'' 600 1] [coal_yard 1000]
           [boxn_rake ''RK001'', boxn_rake ''RK002'']"
  let ?pack = "pack_rake ?p (boxn_rake ''RK001'') [coal_order ''o1'' 600 1] {}
           [coal_yard 1000] (initial_inventory [coal_yard 1000])"
  let ?two = "[coal_order ''o1'' 3000 1, coal_order ''o2'' 3000 2]"
  let ?run2 = "plan_run ?p ?two [coal_yard 3000] [boxn_rake ''RK001'', boxn_rake ''RK002'']"
  have init: "remaining (initial_inventory [coal_yard 1000]) ''SY001'' ''COAL'' = Some 1000"
    by (simp add: remaining_def initial_inventory_def coal_yard_def)
  have run: "case ?run of Inl e \<Rightarrow> False
    | Inr final \<Rightarrow> plan_rakes final = [] \<and> assigned_orders final = {} \<and>
        remaining (stockyard_inventory final) ''SY001'' ''COAL'' = Some 400"
    by (simp add: remaining_def greedy_defs example_defs Let_def)
  then obtain final where final: "?run = Inr final" by (cases ?run) simp_all
  have nonneg: "\<forall>ord\<in>set [coal_order ''o1'' 600 1]. 0 \<le> quantity_tonnes ord"
    by (simp add: coal_order_def)
  have pack: "case ?pack of Inl e \<Rightarrow> False
    | Inr (rake_plan, inventory') \<Rightarrow> map_option total_weight rake_plan = Some 600"
    by (simp add: remaining_def greedy_defs example_defs Let_def)
  then obtain rp inventory' where rp: "?pack = Inr (Some rp, inventory')" "total_weight rp = 600"
    by (cases ?pack) (auto split: prod.splits)
  have origin: "origin_stockyard_code rp = Some ''SY001''" "reserved (orders rp) ''COAL'' = 600"
    using rp(1) by (auto simp add: reserved_def greedy_defs example_defs Let_def)
  note inst = ledger_never_released[where p = ?p and ords = "[coal_order ''o1'' 600 1]"
      and stockyards = "[coal_yard 1000]" and rks = "[boxn_rake ''RK001'', boxn_rake ''RK002'']"
      and final = final and rk = "boxn_rake ''RK001''" and assigned = "{}"
      and inventory = "initial_inventory [coal_yard 1000]" and rake_plan = "Some rp"
      and inventory' = inventory']
  from inst nonneg final
  have le: "ledger_le (stockyard_inventory final) (initial_inventory [coal_yard 1000])" by blast
  from inst rp(1)
  have "remaining inventory' ''SY001'' ''COAL'' =
      map_option (\<lambda>v. v - (case Some rp of None \<Rightarrow> 0
          | Some rp \<Rightarrow> reserved_at (origin_stockyard_code rp) (orders rp) ''SY001'' ''COAL''))
        (remaining (initial_inventory [coal_yard 1000]) ''SY001'' ''COAL'')"
    by blast
  with init origin have inv': "remaining inventory' ''SY001'' ''COAL'' = Some 400"
    by (simp add: reserved_at_def)
  have run2: "case ?run2 of Inl e \<Rightarrow> False
    | Inr final \<Rightarrow> map total_weight (plan_rakes final) = [3000] \<and> assigned_orders final = {''o1''} \<and>
        shipped (plan_rakes final) ''SY001'' ''COAL'' = 3000 \<and>
        remaining (stockyard_inventory final) ''SY001'' ''COAL'' = Some 0"
    by (simp add: remaining_def shipped_def reserved_at_def reserved_def greedy_defs example_defs Let_def)
  then obtain final2 where final2: "?run2 = Inr final2" by (cases ?run2) simp_all
  have nonneg2: "\<forall>ord\<in>set ?two. 0 \<le> quantity_tonnes ord"
    by (simp add: coal_order_def)
  from ledger_never_released[where p = ?p and ords = ?two
      and stockyards = "[coal_yard 3000]" and rks = "[boxn_rake ''RK001'', boxn_rake ''RK002'']"
      and final = final2] nonneg2 final2
  have within: "ledger_within (stockyard_inventory final2) (initial_inventory [coal_yard 3000])
      (plan_rakes final2)"
    by blast
  from init run final le rp inv' run2 final2 within show ?thesis by simp
qed


section \<open>Properties of the dispatcher\<close>


text \<open>
  Claim C3, as the code has it. The mode that runs the CP-SAT planner and returns its
  result is \<^verbatim>\<open>or-tools\<close>; every mode other than \<^verbatim>\<open>greedy\<close>, \<^verbatim>\<open>or-tools\<close> and \<^verbatim>\<open>hybrid\<close> raises
  a \<^verbatim>\<open>ValueError\<close> that names the mode, and no plan is returned.
\<close>

theorem run_planner_modes:
  "run_planner ''or-tools'' cfg solver ords stockyards rks =
     ORToolsPlanner_plan cfg solver ords stockyards rks \<and>
   (md \<notin> {''greedy'', ''or-tools'', ''hybrid''} \<longrightarrow>
      run_planner md cfg solver ords stockyards rks = Inl (ValueError (''Unknown planner mode: '' @ md)))"
  by (simp add: run_planner_def)

theorem run_planner_modes_witness:
  "run_planner ''cp-sat'' default_config assign_none [coal_order ''o1'' 2500 1] [coal_yard 30000]
      [boxn_rake ''RK001''] = Inl (ValueError ''Unknown planner mode: cp-sat'') \<and>
   fulfilled_and_planned (run_planner ''or-tools'' default_config assign_none
      [coal_order ''o1'' 2500 1] [coal_yard 30000] [boxn_rake ''RK001'']) = Some (0, 0)"
  using run_planner_modes[where cfg = default_config and solver = assign_none
      and ords = "[coal_order ''o1'' 2500 1]" and stockyards = "[coal_yard 30000]"
      and rks = "[boxn_rake ''RK001'']" and md = "''cp-sat''"]
  by (simp add: fulfilled_and_planned_def planned_order_ids_def ortools_defs example_defs Let_def)

text \<open>
  Claim C3 as stated fails on both counts: the mode \<^verbatim>\<open>optimal\<close> raises the error of an
  unknown mode, and the mode \<^verbatim>\<open>or-tools\<close>, which is outside the three modes the claim
  names, returns a plan.
\<close>

theorem run_planner_optimal_counterexample:
  "run_planner ''optimal'' default_config assign_none [coal_order ''o1'' 2500 1] [coal_yard 30000]
      [boxn_rake ''RK001''] = Inl (ValueError ''Unknown planner mode: optimal'') \<and>
   ''or-tools'' \<notin> {''greedy'', ''optimal'', ''hybrid''} \<and>
   fulfilled_and_planned (run_planner ''or-tools'' default_config assign_none
      [coal_order ''o1'' 2500 1] [coal_yard 30000] [boxn_rake ''RK001'']) = Some (0, 0)"
  by (simp add: run_planner_def fulfilled_and_planned_def planned_order_ids_def ortools_defs
      example_defs Let_def)

text \<open>
  Claim C6. In hybrid mode an error of the greedy planner is the error of the dispatcher.
  When the greedy planner returns a plan and the CP-SAT planner raises, the dispatcher
  returns the greedy plan with the tag \<^verbatim>\<open>hybrid (greedy only)\<close>. When both return a plan, the
  dispatcher returns a plan whose total cost is the lower of the two: the CP-SAT plan
  tagged \<^verbatim>\<open>hybrid (or-tools better)\<close> when its total cost is strictly lower, the greedy
  plan tagged \<^verbatim>\<open>hybrid (greedy better)\<close> otherwise.
\<close>

theorem run_planner_hybrid:
  "(case GreedyPlanner_plan (GreedyPlanner cfg) ords stockyards rks of
      Inl e \<Rightarrow> run_planner ''hybrid'' cfg solver ords stockyards rks = Inl e
    | Inr greedy_result \<Rightarrow>
        (case ORToolsPlanner_plan cfg solver ords stockyards rks of
           Inl e \<Rightarrow>
             run_planner ''hybrid'' cfg solver ords stockyards rks =
               Inr (greedy_result\<lparr>algorithm := ''hybrid (greedy only)''\<rparr>) \<and>
             ''hybrid (greedy only)'' = ''hybrid ('' @ ''greedy only'' @ '')''
         | Inr ortools_result \<Rightarrow>
             (\<exists>res. run_planner ''hybrid'' cfg solver ords stockyards rks = Inr res \<and>
                total_cost res = min (total_cost greedy_result) (total_cost ortools_result) \<and>
                (if total_cost ortools_result < total_cost greedy_result
                 then res = ortools_result\<lparr>algorithm := ''hybrid (or-tools better)''\<rparr>
                 else res = greedy_result\<lparr>algorithm := ''hybrid (greedy better)''\<rparr>))))"
proof (cases "GreedyPlanner_plan (GreedyPlanner cfg) ords stockyards rks")
  case (Inl e)
  then show ?thesis by (simp add: run_planner_def)
next
  case g: (Inr greedy_result)
  show ?thesis
  proof (cases "ORToolsPlanner_plan cfg solver ords stockyards rks")
    case (Inl e)
    with g show ?thesis by (simp add: run_planner_def)
  next
    case ot: (Inr ortools_result)
    show ?thesis
    proof (cases "total_cost ortools_result < total_cost greedy_result")
      case True
      with g ot show ?thesis by (simp add: run_planner_def min_def)
    next
      case False
      with g ot show ?thesis by (simp add: run_planner_def min_def)
    qed
  qed
qed

theorem run_planner_hybrid_witness:
  "(case run_planner ''hybrid'' default_config failing_solver
       [coal_order ''o1'' 2500 1, coal_order ''o2'' 2000 2] [coal_yard 30000] [boxn_rake ''RK001''] of
      Inl e \<Rightarrow> False
    | Inr res \<Rightarrow> algorithm res = ''hybrid (greedy only)'' \<and> total_cost res = 3131060 \<and>
        map total_weight (rakes res) = [2500]) \<and>
   (case run_planner ''hybrid'' default_config assign_none
       [coal_order ''o1'' 2500 1, coal_order ''o2'' 2000 2] [coal_yard 30000] [boxn_rake ''RK001''] of
      Inl e \<Rightarrow> False
    | Inr res \<Rightarrow> algorithm res = ''hybrid (or-tools better)'' \<and> total_cost res = 0 \<and>
        rakes res = [])"
proof -
  let ?ords = "[coal_order ''o1'' 2500 1, coal_order ''o2'' 2000 2]"
  let ?g = "GreedyPlanner_plan (GreedyPlanner default_config) ?ords [coal_yard 30000] [boxn_rake ''RK001'']"
  have g: "case ?g of Inl e \<Rightarrow> False
    | Inr pl \<Rightarrow> total_cost pl = 3131060 \<and> map total_weight (rakes pl) = [2500]"
    by (simp add: greedy_defs example_defs Let_def)
  then obtain gr where gr: "?g = Inr gr" "total_cost gr = 3131060" "map total_weight (rakes gr) = [2500]"
    by (cases ?g) simp_all
  have f: "ORToolsPlanner_plan default_config failing_solver ?ords [coal_yard 30000] [boxn_rake ''RK001'']
      = Inl SolverError"
    by (simp add: ortools_defs example_defs Let_def)
  have n: "case ORToolsPlanner_plan default_config assign_none ?ords [coal_yard 30000] [boxn_rake ''RK001''] of
      Inl e \<Rightarrow> False | Inr pl \<Rightarrow> total_cost pl = 0 \<and> rakes pl = []"
    by (simp add: ortools_defs example_defs Let_def)
  then obtain ot where ot: "ORToolsPlanner_plan default_config assign_none ?ords [coal_yard 30000]
      [boxn_rake ''RK001''] = Inr ot" "total_cost ot = 0" "rakes ot = []"
    by (cases "ORToolsPlanner_plan default_config assign_none ?ords [coal_yard 30000] [boxn_rake ''RK001'']")
       simp_all
  from run_planner_hybrid[where cfg = default_config and ords = ?ords and stockyards = "[coal_yard 30000]"
      and rks = "[boxn_rake ''RK001'']" and solver = failing_solver]
    gr f
  have 1: "run_planner ''hybrid'' default_config failing_solver ?ords [coal_yard 30000] [boxn_rake ''RK001'']
      = Inr (gr\<lparr>algorithm := ''hybrid (greedy only)''\<rparr>)"
    by simp
  from run_planner_hybrid[where cfg = default_config and ords = ?ords and stockyards = "[coal_yard 30000]"
      and rks = "[boxn_rake ''RK001'']" and solver = assign_none]
    gr ot
  have 2: "run_planner ''hybrid'' default_config assign_none ?ords [coal_yard 30000] [boxn_rake ''RK001'']
      = Inr (ot\<lparr>algorithm := ''hybrid (or-tools better)''\<rparr>)"
    by simp
  from 1 2 gr ot show ?thesis by simp
qed

section \<open>Properties of the job runner\<close>


lemma find_update_first_key:
  assumes "\<And>x. k (f x) = k x"
  shows "find (\<lambda>x. k x = a) (update_first (\<lambda>x. k x = b) f xs) =
           (if a = b then map_option f (find (\<lambda>x. k x = a) xs) else find (\<lambda>x. k x = a) xs)"
  using assms by (induction xs) auto

lemma find_job_update_first:
  assumes "\<And>j. job_id (f j) = job_id j"
  shows "find (\<lambda>j. job_id j = jid) (update_first (\<lambda>j. job_id j = jid) f xs) =
           map_option f (find (\<lambda>j. job_id j = jid) xs)"
  using find_update_first_key[of job_id f jid jid xs, OF assms] by simp

text \<open>The states of the job that a run of the job runner commits, one after the other.\<close>

lemma execute_planning_job_states:
  assumes "find (\<lambda>j. job_id j = jid) (jobs_tbl db) = Some job0"
  shows "map (job_state jid) (execute_planning_job clock solver new_plan_id jid cfg db) =
     (case run_planner (get_or ''greedy'' (mode cfg)) cfg solver
             (map order.truncate (filter (\<lambda>row. order_status row = ''pending'') (orders_tbl db)))
             (stockyards_tbl db)
             (filter (\<lambda>r. status r = Some ''available'') (rakes_tbl db)) of
        Inl e \<Rightarrow> [Some (''running'', progress job0), Some (''running'', 20), Some (''running'', 40),
                  Some (''failed'', 40)]
      | Inr plan_result \<Rightarrow>
          [Some (''running'', progress job0), Some (''running'', 20), Some (''running'', 40),
           Some (''running'', 80), Some (''running'', 80), Some (''running'', 80),
           Some (''completed'', 100)])"
  using assms
  by (simp add: execute_planning_job_def Let_def job_state_def update_job_def
      find_job_update_first split: sum.splits)


text \<open>
  Claim C4, as the code has it. In every state that a run of the job runner commits, for
  a job that started with a progress other than 100, the progress is 100 exactly when the
  status is \<^verbatim>\<open>completed\<close>; the run ends \<^verbatim>\<open>completed\<close> with progress 100 when the planner
  returns a plan, and \<^verbatim>\<open>failed\<close> with the progress 40 of the last checkpoint when the
  planner raises. Cancelling a job whose status is not terminal sets the status
  \<^verbatim>\<open>cancelled\<close> and leaves the progress as it was; cancelling a job in a terminal status is
  rejected with the HTTP error 400 and changes nothing.
\<close>

theorem job_progress_and_status:
  "(find (\<lambda>j. job_id j = jid) (jobs_tbl db) = Some job0 \<and> progress job0 \<noteq> 100 \<longrightarrow>
      list_all (\<lambda>db'. case job_state jid db' of
                         None \<Rightarrow> False
                       | Some (s, pr) \<Rightarrow> terminal s = (s \<noteq> ''running'') \<and> (pr = 100) = (s = ''completed''))
        (execute_planning_job clock solver new_plan_id jid cfg db) \<and>
      job_state jid (last (execute_planning_job clock solver new_plan_id jid cfg db)) =
        (case run_planner (get_or ''greedy'' (mode cfg)) cfg solver
                (map order.truncate (filter (\<lambda>row. order_status row = ''pending'') (orders_tbl db)))
                (stockyards_tbl db)
                (filter (\<lambda>r. status r = Some ''available'') (rakes_tbl db)) of
           Inl e \<Rightarrow> Some (''failed'', 40)
         | Inr plan_result \<Rightarrow> Some (''completed'', 100))) \<and>
   (find (\<lambda>j. job_id j = jid) (jobs_tbl db) = Some job0 \<and> \<not> terminal (job_status job0) \<longrightarrow>
      (\<exists>db'. cancel_job clock jid db = (Inr ''Job cancelled successfully'', db') \<and>
             job_state jid db' = Some (''cancelled'', progress job0))) \<and>
   (find (\<lambda>j. job_id j = jid) (jobs_tbl db) = Some job0 \<and> terminal (job_status job0) \<longrightarrow>
      cancel_job clock jid db = (Inl (HTTPException 400 ''Cannot cancel job in current state''), db))"
proof (intro conjI impI)
  assume a: "find (\<lambda>j. job_id j = jid) (jobs_tbl db) = Some job0 \<and> progress job0 \<noteq> 100"
  let ?tr = "execute_planning_job clock solver new_plan_id jid cfg db"
  let ?res = "run_planner (get_or ''greedy'' (mode cfg)) cfg solver
                (map order.truncate (filter (\<lambda>row. order_status row = ''pending'') (orders_tbl db)))
                (stockyards_tbl db)
                (filter (\<lambda>r. status r = Some ''available'') (rakes_tbl db))"
  let ?ok = "\<lambda>st. case st of None \<Rightarrow> False
     | Some (s, pr) \<Rightarrow> terminal s = (s \<noteq> ''running'') \<and> ((pr::real) = 100) = (s = ''completed'')"
  from a have states: "map (job_state jid) ?tr =
     (case ?res of
        Inl e \<Rightarrow> [Some (''running'', progress job0), Some (''running'', 20), Some (''running'', 40),
                  Some (''failed'', 40)]
      | Inr plan_result \<Rightarrow>
          [Some (''running'', progress job0), Some (''running'', 20), Some (''running'', 40),
           Some (''running'', 80), Some (''running'', 80), Some (''running'', 80),
           Some (''completed'', 100)])"
    using execute_planning_job_states[of jid db job0 clock solver new_plan_id cfg] by simp
  from a have "list_all ?ok (map (job_state jid) ?tr)"
    unfolding states by (cases ?res) (simp_all add: terminal_def)
  then show "list_all (\<lambda>db'. case job_state jid db' of
                         None \<Rightarrow> False
                       | Some (s, pr) \<Rightarrow> terminal s = (s \<noteq> ''running'') \<and> (pr = 100) = (s = ''completed'')) ?tr"
    by (simp add: list_all_iff)
  have ne: "?tr \<noteq> []"
    using states by (cases ?res) auto
  then have "job_state jid (last ?tr) = last (map (job_state jid) ?tr)"
    by (simp add: last_map)
  then show "job_state jid (last ?tr) =
        (case ?res of Inl e \<Rightarrow> Some (''failed'', 40) | Inr plan_result \<Rightarrow> Some (''completed'', 100))"
    unfolding states by (cases ?res) simp_all
next
  assume a: "find (\<lambda>j. job_id j = jid) (jobs_tbl db) = Some job0 \<and> \<not> terminal (job_status job0)"
  then show "\<exists>db'. cancel_job clock jid db = (Inr ''Job cancelled successfully'', db') \<and>
             job_state jid db' = Some (''cancelled'', progress job0)"
    by (simp add: cancel_job_def terminal_def job_state_def update_job_def find_job_update_first)
next
  assume "find (\<lambda>j. job_id j = jid) (jobs_tbl db) = Some job0 \<and> terminal (job_status job0)"
  then show "cancel_job clock jid db = (Inl (HTTPException 400 ''Cannot cancel job in current state''), db)"
    by (simp add: cancel_job_def terminal_def)
qed

lemmas job_defs = execute_planning_job_def cancel_job_def job_state_def update_job_def
  new_job_def terminal_def plan_rake_row_of_def order.truncate_def

lemmas store_defs = queued_store_def planned_store_def pending_order_def planned_row_def
  empty_plan_def

text \<open>
  Claim C4 as stated fails on both paths it names: a job whose configuration asks for the
  mode \<^verbatim>\<open>optimal\<close> ends \<^verbatim>\<open>failed\<close> with progress 40, and a queued job that is cancelled ends
  \<^verbatim>\<open>cancelled\<close> with progress 0.
\<close>

theorem job_progress_counterexample:
  "map (job_state ''j1'')
     (execute_planning_job (\<lambda>k. k) assign_none ''p1'' ''j1''
        (default_config\<lparr>mode := Some ''optimal''\<rparr>) queued_store) =
     [Some (''running'', 0), Some (''running'', 20), Some (''running'', 40), Some (''failed'', 40)] \<and>
   terminal ''failed'' \<and>
   map_prod id (job_state ''j1'') (cancel_job (\<lambda>k. k) ''j1'' queued_store) =
     (Inr ''Job cancelled successfully'', Some (''cancelled'', 0)) \<and>
   terminal ''cancelled''"
  by (simp add: job_defs store_defs run_planner_def example_defs get_or_def)

theorem job_progress_and_status_witness:
  "map (job_state ''j1'')
     (execute_planning_job (\<lambda>k. k) assign_none ''p1'' ''j1'' default_config queued_store) =
     [Some (''running'', 0), Some (''running'', 20), Some (''running'', 40), Some (''running'', 80),
      Some (''running'', 80), Some (''running'', 80), Some (''completed'', 100)] \<and>
   job_state ''j1'' (last (execute_planning_job (\<lambda>k. k) assign_none ''p1'' ''j1''
        (default_config\<lparr>mode := Some ''optimal''\<rparr>) queued_store)) = Some (''failed'', 40) \<and>
   (\<exists>db'. cancel_job (\<lambda>k. k) ''j1'' queued_store = (Inr ''Job cancelled successfully'', db') \<and>
          job_state ''j1'' db' = Some (''cancelled'', 0))"
proof -
  have f: "find (\<lambda>j. job_id j = ''j1'') (jobs_tbl queued_store) = Some (new_job ''j1'' ''Scenario 1'')"
    by (simp add: queued_store_def new_job_def)
  have p: "progress (new_job ''j1'' ''Scenario 1'') \<noteq> 100" "\<not> terminal (job_status (new_job ''j1'' ''Scenario 1''))"
    "progress (new_job ''j1'' ''Scenario 1'') = 0"
    by (simp_all add: new_job_def terminal_def)
  have r: "run_planner (get_or ''greedy'' (mode (default_config\<lparr>mode := Some ''optimal''\<rparr>)))
        (default_config\<lparr>mode := Some ''optimal''\<rparr>) assign_none
        (map order.truncate (filter (\<lambda>row. order_status row = ''pending'') (orders_tbl queued_store)))
        (stockyards_tbl queued_store)
        (filter (\<lambda>r. status r = Some ''available'') (rakes_tbl queued_store)) =
      Inl (ValueError ''Unknown planner mode: optimal'')"
    by (simp add: run_planner_def get_or_def)
  have 1: "map (job_state ''j1'')
     (execute_planning_job (\<lambda>k. k) assign_none ''p1'' ''j1'' default_config queued_store) =
     [Some (''running'', 0), Some (''running'', 20), Some (''running'', 40), Some (''running'', 80),
      Some (''running'', 80), Some (''running'', 80), Some (''completed'', 100)]"
    by (simp add: job_defs store_defs run_planner_def example_defs greedy_defs Let_def)
  from job_progress_and_status[where jid = "''j1''" and db = queued_store
      and ?job0.0 = "new_job ''j1'' ''Scenario 1''" and clock = "\<lambda>k. k" and solver = assign_none
      and new_plan_id = "''p1''" and cfg = "default_config\<lparr>mode := Some ''optimal''\<rparr>"] f p r
  have 2: "job_state ''j1'' (last (execute_planning_job (\<lambda>k. k) assign_none ''p1'' ''j1''
        (default_config\<lparr>mode := Some ''optimal''\<rparr>) queued_store)) = Some (''failed'', 40)"
    and 3: "\<exists>db'. cancel_job (\<lambda>k. k) ''j1'' queued_store = (Inr ''Job cancelled successfully'', db') \<and>
          job_state ''j1'' db' = Some (''cancelled'', 0)"
    by simp_all
  from 1 2 3 show ?thesis by blast
qed

section \<open>Properties of the commit executor\<close>


text \<open>What the assignments of a commit do to the rows found by order id and by rake number.\<close>

lemma fold_assign_order:
  "plans_tbl (fold assign_order ods db) = plans_tbl db \<and>
   plan_rakes_tbl (fold assign_order ods db) = plan_rakes_tbl db \<and>
   rakes_tbl (fold assign_order ods db) = rakes_tbl db \<and>
   (\<forall>i. find (\<lambda>row. o_id row = i) (orders_tbl (fold assign_order ods db)) =
        map_option (\<lambda>row. if i \<in> order_id ` set ods then row\<lparr>order_status := ''assigned''\<rparr> else row)
          (find (\<lambda>row. o_id row = i) (orders_tbl db)))"
proof (induction ods arbitrary: db)
  case Nil
  then show ?case by (simp add: option.map_ident)
next
  case (Cons od ods)
  let ?db1 = "assign_order od db"
  have tables: "plans_tbl ?db1 = plans_tbl db" "plan_rakes_tbl ?db1 = plan_rakes_tbl db"
    "rakes_tbl ?db1 = rakes_tbl db"
    by (simp_all add: assign_order_def)
  have step: "find (\<lambda>row. o_id row = i) (orders_tbl ?db1) =
      (if i = order_id od
       then map_option (\<lambda>row. row\<lparr>order_status := ''assigned''\<rparr>) (find (\<lambda>row. o_id row = i) (orders_tbl db))
       else find (\<lambda>row. o_id row = i) (orders_tbl db))" for i
    using find_update_first_key[of o_id "\<lambda>row. row\<lparr>order_status := ''assigned''\<rparr>" i "order_id od"
        "orders_tbl db"]
    by (simp add: assign_order_def)
  have "find (\<lambda>row. o_id row = i) (orders_tbl (fold assign_order (od # ods) db)) =
        map_option (\<lambda>row. if i \<in> order_id ` set (od # ods) then row\<lparr>order_status := ''assigned''\<rparr> else row)
          (find (\<lambda>row. o_id row = i) (orders_tbl db))" for i
  proof -
    from Cons.IH[of ?db1]
    have "find (\<lambda>row. o_id row = i) (orders_tbl (fold assign_order (od # ods) db)) =
        map_option (\<lambda>row. if i \<in> order_id ` set ods then row\<lparr>order_status := ''assigned''\<rparr> else row)
          (find (\<lambda>row. o_id row = i) (orders_tbl ?db1))"
      by simp
    then show ?thesis
      by (cases "find (\<lambda>row. o_id row = i) (orders_tbl db)") (auto simp add: step)
  qed
  with Cons.IH[of ?db1] tables show ?case by simp
qed

lemma assign_rake_tables:
  "plans_tbl (assign_rake pr db) = plans_tbl db \<and>
   plan_rakes_tbl (assign_rake pr db) = plan_rakes_tbl db \<and>
   (\<forall>n. find (\<lambda>r. rake_number r = n) (rakes_tbl (assign_rake pr db)) =
        map_option (\<lambda>r. if n = prr_rake_number pr then r\<lparr>status := Some ''assigned''\<rparr> else r)
          (find (\<lambda>r. rake_number r = n) (rakes_tbl db))) \<and>
   (\<forall>i. find (\<lambda>row. o_id row = i) (orders_tbl (assign_rake pr db)) =
        map_option (\<lambda>row. if i \<in> order_id ` set (orders_assigned pr)
                           then row\<lparr>order_status := ''assigned''\<rparr> else row)
          (find (\<lambda>row. o_id row = i) (orders_tbl db)))"
proof -
  let ?db1 = "db\<lparr>rakes_tbl := update_first (\<lambda>r. rake_number r = prr_rake_number pr)
              (\<lambda>r. r\<lparr>status := Some ''assigned''\<rparr>) (rakes_tbl db)\<rparr>"
  have rk: "find (\<lambda>r. rake_number r = n) (rakes_tbl ?db1) =
        map_option (\<lambda>r. if n = prr_rake_number pr then r\<lparr>status := Some ''assigned''\<rparr> else r)
          (find (\<lambda>r. rake_number r = n) (rakes_tbl db))" for n
    using find_update_first_key[of rake_number "\<lambda>r. r\<lparr>status := Some ''assigned''\<rparr>" n
        "prr_rake_number pr" "rakes_tbl db"]
    by (cases "n = prr_rake_number pr") (simp_all add: option.map_ident)
  from fold_assign_order[of "orders_assigned pr" ?db1] rk show ?thesis
    by (simp add: assign_rake_def)
qed

lemma fold_assign_rake:
  "plans_tbl (fold assign_rake prs db) = plans_tbl db \<and>
   plan_rakes_tbl (fold assign_rake prs db) = plan_rakes_tbl db \<and>
   (\<forall>n. find (\<lambda>r. rake_number r = n) (rakes_tbl (fold assign_rake prs db)) =
        map_option (\<lambda>r. if n \<in> prr_rake_number ` set prs then r\<lparr>status := Some ''assigned''\<rparr> else r)
          (find (\<lambda>r. rake_number r = n) (rakes_tbl db))) \<and>
   (\<forall>i. find (\<lambda>row. o_id row = i) (orders_tbl (fold assign_rake prs db)) =
        map_option (\<lambda>row. if i \<in> (\<Union>r\<in>set prs. order_id ` set (orders_assigned r))
                           then row\<lparr>order_status := ''assigned''\<rparr> else row)
          (find (\<lambda>row. o_id row = i) (orders_tbl db)))"
proof (induction prs arbitrary: db)
  case Nil
  then show ?case by (simp add: option.map_ident)
next
  case (Cons pr prs)
  let ?db1 = "assign_rake pr db"
  note one = assign_rake_tables[of pr db]
  note more = Cons.IH[of ?db1]
  have rk: "find (\<lambda>r. rake_number r = n) (rakes_tbl (fold assign_rake (pr # prs) db)) =
        map_option (\<lambda>r. if n \<in> prr_rake_number ` set (pr # prs) then r\<lparr>status := Some ''assigned''\<rparr> else r)
          (find (\<lambda>r. rake_number r = n) (rakes_tbl db))" for n
  proof -
    from more have "find (\<lambda>r. rake_number r = n) (rakes_tbl (fold assign_rake (pr # prs) db)) =
        map_option (\<lambda>r. if n \<in> prr_rake_number ` set prs then r\<lparr>status := Some ''assigned''\<rparr> else r)
          (find (\<lambda>r. rake_number r = n) (rakes_tbl ?db1))"
      by simp
    moreover from one have "find (\<lambda>r. rake_number r = n) (rakes_tbl ?db1) =
        map_option (\<lambda>r. if n = prr_rake_number pr then r\<lparr>status := Some ''assigned''\<rparr> else r)
          (find (\<lambda>r. rake_number r = n) (rakes_tbl db))"
      by simp
    ultimately show ?thesis
      by (cases "find (\<lambda>r. rake_number r = n) (rakes_tbl db)") auto
  qed
  have od: "find (\<lambda>row. o_id row = i) (orders_tbl (fold assign_rake (pr # prs) db)) =
        map_option (\<lambda>row. if i \<in> (\<Union>r\<in>set (pr # prs). order_id ` set (orders_assigned r))
                           then row\<lparr>order_status := ''assigned''\<rparr> else row)
          (find (\<lambda>row. o_id row = i) (orders_tbl db))" for i
  proof -
    from more have "find (\<lambda>row. o_id row = i) (orders_tbl (fold assign_rake (pr # prs) db)) =
        map_option (\<lambda>row. if i \<in> (\<Union>r\<in>set prs. order_id ` set (orders_assigned r))
                           then row\<lparr>order_status := ''assigned''\<rparr> else row)
          (find (\<lambda>row. o_id row = i) (orders_tbl ?db1))"
      by simp
    moreover from one have "find (\<lambda>row. o_id row = i) (orders_tbl ?db1) =
        map_option (\<lambda>row. if i \<in> order_id ` set (orders_assigned pr)
                           then row\<lparr>order_status := ''assigned''\<rparr> else row)
          (find (\<lambda>row. o_id row = i) (orders_tbl db))"
      by simp
    ultimately show ?thesis
      by (cases "find (\<lambda>row. o_id row = i) (orders_tbl db)") auto
  qed
  from more one rk od show ?case by simp
qed

text \<open>
  Claim C5. For a plan that exists and is not committed, the first call of the commit
  succeeds: the plan is then committed with the time of the call, every rake and every
  order that the rows of the plan refer to and that the store has, looked up by rake
  number and by order id, has the status \<^verbatim>\<open>assigned\<close>, and the others are as before. A second
  call, at any time, fails with the HTTP error 400 and leaves the store as the first
  call left it.
\<close>

theorem commit_plan_twice:
  "find (\<lambda>p. plan_id p = pid) (plans_tbl db) = Some pl \<and> \<not> committed pl \<longrightarrow>
     (\<exists>db'. commit_plan clock pid db = (Inr (''Plan committed successfully'', pid, clock 0), db') \<and>
        find (\<lambda>p. plan_id p = pid) (plans_tbl db') =
          Some (pl\<lparr>committed := True, committed_at := Some (clock 0)\<rparr>) \<and>
        (\<forall>n. find (\<lambda>r. rake_number r = n) (rakes_tbl db') =
           map_option (\<lambda>r. if n \<in> referenced_rakes pid db then r\<lparr>status := Some ''assigned''\<rparr> else r)
             (find (\<lambda>r. rake_number r = n) (rakes_tbl db))) \<and>
        (\<forall>i. find (\<lambda>row. o_id row = i) (orders_tbl db') =
           map_option (\<lambda>row. if i \<in> referenced_orders pid db
                              then row\<lparr>order_status := ''assigned''\<rparr> else row)
             (find (\<lambda>row. o_id row = i) (orders_tbl db))) \<and>
        commit_plan clock' pid db' = (Inl (HTTPException 400 ''Plan already committed''), db'))"
proof
  assume a: "find (\<lambda>p. plan_id p = pid) (plans_tbl db) = Some pl \<and> \<not> committed pl"
  let ?db1 = "db\<lparr>plans_tbl := update_first (\<lambda>p. plan_id p = pid)
                            (\<lambda>p. p\<lparr>committed := True, committed_at := Some (clock 0)\<rparr>) (plans_tbl db)\<rparr>"
  let ?prs = "filter (\<lambda>r. prr_plan_id r = pid) (plan_rakes_tbl db)"
  let ?db2 = "fold assign_rake ?prs ?db1"
  from a have first: "commit_plan clock pid db = (Inr (''Plan committed successfully'', pid, clock 0), ?db2)"
    by (simp add: commit_plan_def Let_def)
  note eff = fold_assign_rake[of ?prs ?db1]
  have pl': "find (\<lambda>p. plan_id p = pid) (plans_tbl ?db2) =
          Some (pl\<lparr>committed := True, committed_at := Some (clock 0)\<rparr>)"
    using a eff find_update_first_key[of plan_id
        "\<lambda>p. p\<lparr>committed := True, committed_at := Some (clock 0)\<rparr>" pid pid "plans_tbl db"]
    by simp
  then have second: "commit_plan clock' pid ?db2 = (Inl (HTTPException 400 ''Plan already committed''), ?db2)"
    by (simp add: commit_plan_def)
  have sets: "prr_rake_number ` set ?prs = referenced_rakes pid db"
    "(\<Union>r\<in>set ?prs. order_id ` set (orders_assigned r)) = referenced_orders pid db"
    by (auto simp add: referenced_rakes_def referenced_orders_def)
  from eff have rk: "\<forall>n. find (\<lambda>r. rake_number r = n) (rakes_tbl ?db2) =
           map_option (\<lambda>r. if n \<in> referenced_rakes pid db then r\<lparr>status := Some ''assigned''\<rparr> else r)
             (find (\<lambda>r. rake_number r = n) (rakes_tbl db))"
    unfolding sets[symmetric] by simp
  from eff have od: "\<forall>i. find (\<lambda>row. o_id row = i) (orders_tbl ?db2) =
           map_option (\<lambda>row. if i \<in> referenced_orders pid db
                              then row\<lparr>order_status := ''assigned''\<rparr> else row)
             (find (\<lambda>row. o_id row = i) (orders_tbl db))"
    unfolding sets[symmetric] by simp
  from first pl' rk od second
  show "\<exists>db'. commit_plan clock pid db = (Inr (''Plan committed successfully'', pid, clock 0), db') \<and>
        find (\<lambda>p. plan_id p = pid) (plans_tbl db') =
          Some (pl\<lparr>committed := True, committed_at := Some (clock 0)\<rparr>) \<and>
        (\<forall>n. find (\<lambda>r. rake_number r = n) (rakes_tbl db') =
           map_option (\<lambda>r. if n \<in> referenced_rakes pid db then r\<lparr>status := Some ''assigned''\<rparr> else r)
             (find (\<lambda>r. rake_number r = n) (rakes_tbl db))) \<and>
        (\<forall>i. find (\<lambda>row. o_id row = i) (orders_tbl db') =
           map_option (\<lambda>row. if i \<in> referenced_orders pid db
                              then row\<lparr>order_status := ''assigned''\<rparr> else row)
             (find (\<lambda>row. o_id row = i) (orders_tbl db))) \<and>
        commit_plan clock' pid db' = (Inl (HTTPException 400 ''Plan already committed''), db')"
    by blast
qed


lemmas commit_defs = commit_plan_def assign_rake_def assign_order_def

theorem commit_plan_twice_witness:
  "(\<exists>db'. commit_plan (\<lambda>k. 7) ''p1'' planned_store = (Inr (''Plan committed successfully'', ''p1'', 7), db') \<and>
      map (\<lambda>p. (plan_id p, committed p, committed_at p)) (plans_tbl db') = [(''p1'', True, Some 7)] \<and>
      map (\<lambda>r. (rake_number r, status r)) (rakes_tbl db') =
        [(''RK001'', Some ''assigned''), (''RK002'', Some ''available'')] \<and>
      map (\<lambda>row. (o_id row, order_status row)) (orders_tbl db') =
        [(''o1'', ''assigned''), (''o2'', ''pending'')] \<and>
      commit_plan (\<lambda>k. 9) ''p1'' db' = (Inl (HTTPException 400 ''Plan already committed''), db'))"
proof -
  let ?pl = "\<lparr>plan_id = ''p1'', plan_job_id = ''j1'', plan_name = ''Scenario 1'',
                   plan_data = empty_plan, committed = False, committed_at = None\<rparr>"
  have f: "find (\<lambda>p. plan_id p = ''p1'') (plans_tbl planned_store) = Some ?pl \<and> \<not> committed ?pl"
    by (simp add: planned_store_def)
  note inst = commit_plan_twice[where pid = "''p1''" and db = planned_store and pl = ?pl
      and clock = "\<lambda>k. 7" and clock' = "\<lambda>k. 9", THEN mp, OF f]
  then obtain db' where
    1: "commit_plan (\<lambda>k. 7) ''p1'' planned_store = (Inr (''Plan committed successfully'', ''p1'', 7), db')"
    and 2: "commit_plan (\<lambda>k. 9) ''p1'' db' = (Inl (HTTPException 400 ''Plan already committed''), db')"
    by (elim exE conjE)
  from 1 have db': "db' = snd (commit_plan (\<lambda>k. 7) ''p1'' planned_store)" by simp
  have 3: "map (\<lambda>p. (plan_id p, committed p, committed_at p)) (plans_tbl db') = [(''p1'', True, Some 7)]"
    unfolding db' by (simp add: commit_defs store_defs example_defs Let_def)
  have 4: "map (\<lambda>r. (rake_number r, status r)) (rakes_tbl db') =
        [(''RK001'', Some ''assigned''), (''RK002'', Some ''available'')]"
    unfolding db' by (simp add: commit_defs store_defs example_defs Let_def)
  have 5: "map (\<lambda>row. (o_id row, order_status row)) (orders_tbl db') =
        [(''o1'', ''assigned''), (''o2'', ''pending'')]"
    unfolding db' by (simp add: commit_defs store_defs example_defs Let_def)
  from 1 3 4 5 2 show ?thesis by (intro exI[of _ db'] conjI)
qed

end
